theory Spec2Isabelle
  imports Complex_Main "HOL-Library.AList" "HOL-Library.Multiset" "HOL-Library.Sublist"
begin

section \<open>Values of a parsed manifest\<close>

text \<open>
  A manifest is whatever \<^verbatim>\<open>JSON.parse\<close> returned, typed \<^verbatim>\<open>any\<close>. Objects keep their
  properties in insertion order; numbers are the integers the manifests use (ports,
  identifiers). \<open>JUndefined\<close> is the value a read of a missing property gives.
\<close>

datatype jsval =
    JUndefined
  | JNull
  | JBool bool
  | JNum int
  | JStr string
  | JArr "jsval list"
  | JObj "(string \<times> jsval) list"

text \<open>
  A step of the program returns normally, throws a \<^verbatim>\<open>TypeError\<close> (a property of
  \<^verbatim>\<open>null\<close> or \<^verbatim>\<open>undefined\<close>, an assignment to a property of a primitive in module
  code), or leaves what is modelled here: where the source would go on with a value the
  embedding has no representation for (a method inherited from \<^verbatim>\<open>Array.prototype\<close>, a
  named property stored on an array, the coercion of a non-array to a length).
\<close>

datatype 'a completion = Normal 'a | TypeError | Unmodelled

text \<open>\<^verbatim>\<open>ResErr<T>\<close>: \<open>Inl\<close> is \<^verbatim>\<open>{result: null, error: e}\<close>, \<open>Inr\<close> is \<^verbatim>\<open>{result: r, error: null}\<close>.\<close>

type_synonym 'a ResErr = "string + 'a"

definition nullish :: "jsval \<Rightarrow> bool" where
  "nullish v = (v = JUndefined \<or> v = JNull)"

text \<open>The \<^verbatim>\<open>typeof\<close> operator.\<close>

fun typeOf :: "jsval \<Rightarrow> string" where
  "typeOf JUndefined = ''undefined''"
| "typeOf JNull = ''object''"
| "typeOf (JBool b) = ''boolean''"
| "typeOf (JNum n) = ''number''"
| "typeOf (JStr s) = ''string''"
| "typeOf (JArr es) = ''object''"
| "typeOf (JObj ps) = ''object''"

text \<open>
  \<^verbatim>\<open>v.k\<close>, for the property names the program reads (\<^verbatim>\<open>settings\<close>, \<^verbatim>\<open>dsn\<close>, \<^verbatim>\<open>assets\<close>,
  \<^verbatim>\<open>type\<close>, \<^verbatim>\<open>useCase\<close>, \<^verbatim>\<open>collection\<close>, \<^verbatim>\<open>entries\<close>, \<^verbatim>\<open>transform\<close>, \<^verbatim>\<open>single\<close>,
  \<^verbatim>\<open>sslMode\<close>, \<^verbatim>\<open>id\<close>): none of them is inherited by an object, a number, a boolean or
  a string; an array inherits \<^verbatim>\<open>entries\<close>, a function.
\<close>

fun getProp :: "jsval \<Rightarrow> string \<Rightarrow> jsval completion" where
  "getProp JUndefined k = TypeError"
| "getProp JNull k = TypeError"
| "getProp (JObj ps) k = Normal (case map_of ps k of None \<Rightarrow> JUndefined | Some v \<Rightarrow> v)"
| "getProp (JArr es) k =
     (if k = ''entries'' then Unmodelled
      else if k = ''length'' then Normal (JNum (int (length es)))
      else Normal JUndefined)"
| "getProp (JStr s) k = (if k = ''length'' then Normal (JNum (int (length s))) else Normal JUndefined)"
| "getProp (JBool b) k = Normal JUndefined"
| "getProp (JNum n) k = Normal JUndefined"

text \<open>
  \<^verbatim>\<open>v.k = x\<close>, in place in the source; here the updated value is returned. The assigned
  property keeps its position when it exists and is appended otherwise.
\<close>

fun setProp :: "jsval \<Rightarrow> string \<Rightarrow> jsval \<Rightarrow> jsval completion" where
  "setProp (JObj ps) k x = Normal (JObj (AList.update k x ps))"
| "setProp (JArr es) k x = Unmodelled"
| "setProp v k x = TypeError"

text \<open>\<^verbatim>\<open>"..." + i\<close> for a loop index.\<close>

fun showNat :: "nat \<Rightarrow> string" where
  "showNat n =
     (if n < 10 then [''0123456789'' ! n]
      else showNat (n div 10) @ [''0123456789'' ! (n mod 10)])"

declare showNat.simps [simp del]

section \<open>Collaborators that are not part of the verified files\<close>

text \<open>The schema descriptors of \<^verbatim>\<open>ts/types.ts\<close>, opaque to the code that passes them on.\<close>

datatype typeDeclaration =
    INGEST_FILE_COLLECTION_ENTRY_TYPEDECL
  | DBDSN_TYPEDECL
  | INGEST_FILE_COLLECTION_ASSET_TYPEDECL
  | INGEST_FILE_COLLECTION_FIELD_TYPEDECL
  | INGEST_FILE_SINGLE_ASSET_TYPEDECL
  | INGEST_FILE_SINGLE_ASSET_FIELD_TYPEDECL
  | TRANSFORM_DTO_TYPEDECL
  | INGEST_FILE_SETTINGS_TYPEDECL

text \<open>
  A declaration of a sub-file in the settings. Modelled from the spec: the type
  \<^verbatim>\<open>SettingsSubFile\<close> of \<^verbatim>\<open>ts/types.ts\<close> is missing; the source reads its \<^verbatim>\<open>path\<close>, and
  the specification gives it an identifier range with inclusive bounds.
\<close>

record SettingsSubFile =
  path :: string
  rangeStart :: int
  rangeEnd :: int

text \<open>
  The functions the verified files import: the type checker, the readers of the compact
  notations, the file system and \<^verbatim>\<open>JSON.parse\<close> (\<open>Inl\<close> is the thrown error as
  \<^verbatim>\<open>"..." + error\<close> prints it), and the three checks of \<^verbatim>\<open>ingestFileVerifier.ts\<close>.
  \<^verbatim>\<open>verifyIngestFileAssets\<close> works in place, so it returns the document too.
\<close>

record env =
  conformsToType :: "jsval \<Rightarrow> typeDeclaration \<Rightarrow> string option"
  readCompactDSNNotationRaw :: "string \<Rightarrow> jsval ResErr"
  readCompactTransformNotationRaw :: "string \<Rightarrow> jsval ResErr"
  fileExists :: "string \<Rightarrow> bool"
  fileText :: "string \<Rightarrow> string"
  JSON_parse :: "string \<Rightarrow> string + jsval"
  metaDir :: string
  checkIDRangesOfSubFiles :: "SettingsSubFile list \<Rightarrow> string option"
  verifyIngestFileAssets :: "jsval \<Rightarrow> jsval \<times> string option"
  verifySubFileIDAssignments :: "SettingsSubFile \<Rightarrow> jsval \<Rightarrow> string option"

section \<open>The ingest file command\<close>

subsection \<open>Transforms and asset entries\<close>

definition assureUniformTransform :: "env \<Rightarrow> jsval \<Rightarrow> jsval ResErr" where
  "assureUniformTransform e maybeTransform =
     (case maybeTransform of
        JStr s \<Rightarrow>
          (case readCompactTransformNotationRaw e s of
             Inl err \<Rightarrow> Inl err
           | Inr r \<Rightarrow> Inr r)
      | _ \<Rightarrow>
          if typeOf maybeTransform = ''object'' then
            (case conformsToType e maybeTransform TRANSFORM_DTO_TYPEDECL of
               Some typeError \<Rightarrow> Inl (''Transform field does not conform to type: '' @ typeError)
             | None \<Rightarrow> Inr maybeTransform)
          else Inl ''Transform field is not compact CLI notation (string) or an object.'')"

text \<open>
  The body of the loop over \<^verbatim>\<open>asset.collection.entries\<close>, for the entry \<open>source\<close> at index
  \<open>i\<close>: the entry as the body leaves it, and the error the function returns with, if any.
\<close>

definition validateEntry :: "env \<Rightarrow> nat \<Rightarrow> nat \<Rightarrow> jsval \<Rightarrow> (jsval \<times> string option) completion" where
  "validateEntry e entryNum i source =
     (case conformsToType e source INGEST_FILE_COLLECTION_ENTRY_TYPEDECL of
        Some sourceTypeError \<Rightarrow>
          Normal (source,
            Some (''Type error in source nr: '' @ showNat i @ '' in collection asset nr: ''
                  @ showNat entryNum @ '': '' @ sourceTypeError))
      | None \<Rightarrow>
          (case getProp source ''transform'' of
             TypeError \<Rightarrow> TypeError
           | Unmodelled \<Rightarrow> Unmodelled
           | Normal t \<Rightarrow>
               (case assureUniformTransform e t of
                  Inl err \<Rightarrow> Normal (source, Some err)
                | Inr r \<Rightarrow>
                    (case setProp source ''transform'' r of
                       TypeError \<Rightarrow> TypeError
                     | Unmodelled \<Rightarrow> Unmodelled
                     | Normal source' \<Rightarrow> Normal (source', None)))))"

text \<open>
  The loop, from index \<open>i\<close> on: the entries not yet visited go in, and come out as the
  loop left them, with the value the function returns.
\<close>

fun validateEntries :: "env \<Rightarrow> nat \<Rightarrow> nat \<Rightarrow> jsval list \<Rightarrow> (jsval list \<times> string option) completion" where
  "validateEntries e entryNum i [] = Normal ([], None)"
| "validateEntries e entryNum i (source # rest) =
     (case validateEntry e entryNum i source of
        TypeError \<Rightarrow> TypeError
      | Unmodelled \<Rightarrow> Unmodelled
      | Normal (source', Some err) \<Rightarrow> Normal (source' # rest, Some err)
      | Normal (source', None) \<Rightarrow>
          (case validateEntries e entryNum (Suc i) rest of
             TypeError \<Rightarrow> TypeError
           | Unmodelled \<Rightarrow> Unmodelled
           | Normal (rest', r) \<Rightarrow> Normal (source' # rest', r)))"

text \<open>
  \<^verbatim>\<open>validateCollectionAssetEntry\<close> returns \<^verbatim>\<open>string | null\<close> and normalizes the transforms
  in the asset it was given: the asset as it is afterwards comes first.
\<close>

definition validateCollectionAssetEntry :: "env \<Rightarrow> jsval \<Rightarrow> nat \<Rightarrow> (jsval \<times> string option) completion" where
  "validateCollectionAssetEntry e asset entryNum =
     (case conformsToType e asset INGEST_FILE_COLLECTION_ASSET_TYPEDECL of
        Some topLevelTypeError \<Rightarrow>
          Normal (asset, Some (''Type error in collection asset nr '' @ showNat entryNum @ '': '' @ topLevelTypeError))
      | None \<Rightarrow>
          (case getProp asset ''collection'' of
             TypeError \<Rightarrow> TypeError
           | Unmodelled \<Rightarrow> Unmodelled
           | Normal coll \<Rightarrow>
               (case conformsToType e coll INGEST_FILE_COLLECTION_FIELD_TYPEDECL of
                  Some collectionFieldTypeError \<Rightarrow>
                    Normal (asset,
                      Some (''Type error in collection field on collection asset nr '' @ showNat entryNum
                            @ '': '' @ collectionFieldTypeError))
                | None \<Rightarrow>
                    (case getProp coll ''entries'' of
                       TypeError \<Rightarrow> TypeError
                     | Unmodelled \<Rightarrow> Unmodelled
                     | Normal (JArr entries) \<Rightarrow>
                         (case validateEntries e entryNum 0 entries of
                            TypeError \<Rightarrow> TypeError
                          | Unmodelled \<Rightarrow> Unmodelled
                          | Normal (entries', r) \<Rightarrow>
                              (case setProp coll ''entries'' (JArr entries') of
                                 Normal coll' \<Rightarrow>
                                   (case setProp asset ''collection'' coll' of
                                      Normal asset' \<Rightarrow> Normal (asset', r)
                                    | TypeError \<Rightarrow> TypeError
                                    | Unmodelled \<Rightarrow> Unmodelled)
                               | TypeError \<Rightarrow> TypeError
                               | Unmodelled \<Rightarrow> Unmodelled))
                     | Normal JUndefined \<Rightarrow> TypeError
                     | Normal JNull \<Rightarrow> TypeError
                     | Normal _ \<Rightarrow> Unmodelled))))"

definition validateSingleAssetEntry :: "env \<Rightarrow> jsval \<Rightarrow> nat \<Rightarrow> string option completion" where
  "validateSingleAssetEntry e asset entryNum =
     (case conformsToType e asset INGEST_FILE_SINGLE_ASSET_TYPEDECL of
        Some typeError \<Rightarrow>
          Normal (Some (''Type error in single asset nr '' @ showNat entryNum @ '': '' @ typeError))
      | None \<Rightarrow>
          (case getProp asset ''single'' of
             TypeError \<Rightarrow> TypeError
           | Unmodelled \<Rightarrow> Unmodelled
           | Normal single \<Rightarrow>
               (case conformsToType e single INGEST_FILE_SINGLE_ASSET_FIELD_TYPEDECL of
                  Some typeErrorOfSingleField \<Rightarrow>
                    Normal (Some (''Type error in single field of single asset nr '' @ showNat entryNum
                                  @ '': '' @ typeErrorOfSingleField))
                | None \<Rightarrow> Normal None)))"

subsection \<open>The DSN\<close>

definition assureUniformDSN :: "env \<Rightarrow> jsval \<Rightarrow> jsval ResErr completion" where
  "assureUniformDSN e dsn =
     (case dsn of
        JStr s \<Rightarrow>
          (case readCompactDSNNotationRaw e s of
             Inl err \<Rightarrow> Normal (Inl err)
           | Inr r \<Rightarrow> Normal (Inr r))
      | _ \<Rightarrow>
          if typeOf dsn = ''object'' then
            (case conformsToType e dsn DBDSN_TYPEDECL of
               Some typeError \<Rightarrow>
                 Normal (Inl (''DSN object does not conform to expected type:'' @ [CHR 0x0A, CHR 0x09] @ typeError))
             | None \<Rightarrow>
                 (case getProp dsn ''sslMode'' of
                    TypeError \<Rightarrow> TypeError
                  | Unmodelled \<Rightarrow> Unmodelled
                  | Normal sslMode \<Rightarrow>
                      if sslMode = JUndefined \<or> sslMode = JNull then
                        (case setProp dsn ''sslMode'' (JStr ''disable'') of
                           TypeError \<Rightarrow> TypeError
                         | Unmodelled \<Rightarrow> Unmodelled
                         | Normal dsn' \<Rightarrow> Normal (Inr dsn'))
                      else Normal (Inr dsn)))
          else
            Normal (Inl (''DSN field is not compact CLI notation ('' @ [CHR 0x22]
                         @ ''host port, username password, dbName, sslMode'' @ [CHR 0x22]
                         @ '') or an object.'')))"

subsection \<open>The manifest\<close>

text \<open>
  The body of the loop over \<^verbatim>\<open>rawFile.assets\<close>, for the asset at index \<open>i\<close>: \<open>Inl\<close> is the
  error the function returns with, \<open>Inr\<close> the asset as the body leaves it.
\<close>

definition verifyAsset :: "env \<Rightarrow> nat \<Rightarrow> jsval \<Rightarrow> jsval ResErr completion" where
  "verifyAsset e i asset =
     (case getProp asset ''type'' of
        TypeError \<Rightarrow> TypeError
      | Unmodelled \<Rightarrow> Unmodelled
      | Normal ty \<Rightarrow>
          if ty = JUndefined \<or> ty = JNull then
            Normal (Inl (''No type field found in asset nr:'' @ showNat i))
          else
            (case getProp asset ''useCase'' of
               TypeError \<Rightarrow> TypeError
             | Unmodelled \<Rightarrow> Unmodelled
             | Normal useCase \<Rightarrow>
                 if useCase = JUndefined \<or> useCase = JNull then
                   Normal (Inl (''No useCase field found in asset nr:'' @ showNat i))
                 else if ty = JStr ''single'' then
                   (case validateSingleAssetEntry e asset i of
                      TypeError \<Rightarrow> TypeError
                    | Unmodelled \<Rightarrow> Unmodelled
                    | Normal (Some err) \<Rightarrow> Normal (Inl err)
                    | Normal None \<Rightarrow> Normal (Inr asset))
                 else if ty = JStr ''collection'' then
                   (case validateCollectionAssetEntry e asset i of
                      TypeError \<Rightarrow> TypeError
                    | Unmodelled \<Rightarrow> Unmodelled
                    | Normal (asset', Some err) \<Rightarrow> Normal (Inl err)
                    | Normal (asset', None) \<Rightarrow> Normal (Inr asset'))
                 else Normal (Inl (''Unknown asset type in asset nr:'' @ showNat i))))"

text \<open>
  The loop, from index \<open>i\<close> on: \<open>Inl\<close> is the error the function returns with, \<open>Inr\<close> the
  assets as the loop left them when it ran to its end.
\<close>

fun verifyAssets :: "env \<Rightarrow> nat \<Rightarrow> jsval list \<Rightarrow> (jsval list) ResErr completion" where
  "verifyAssets e i [] = Normal (Inr [])"
| "verifyAssets e i (asset # rest) =
     (case verifyAsset e i asset of
        TypeError \<Rightarrow> TypeError
      | Unmodelled \<Rightarrow> Unmodelled
      | Normal (Inl err) \<Rightarrow> Normal (Inl err)
      | Normal (Inr asset') \<Rightarrow>
          (case verifyAssets e (Suc i) rest of
             Normal (Inr rest') \<Rightarrow> Normal (Inr (asset' # rest'))
           | other \<Rightarrow> other))"

text \<open>
  \<^verbatim>\<open>verifyIngestFile\<close> of the command's file. A successful result is the document it was
  given, with the DSN and the transforms normalized in it.
\<close>

definition verifyIngestFile :: "env \<Rightarrow> jsval \<Rightarrow> jsval ResErr completion" where
  "verifyIngestFile e rawFile =
     (case getProp rawFile ''settings'' of
        TypeError \<Rightarrow> TypeError
      | Unmodelled \<Rightarrow> Unmodelled
      | Normal settings \<Rightarrow>
          if settings = JUndefined \<or> settings = JNull then
            Normal (Inl ''No settings field and corresponding object found in ingest file.'')
          else
            (case getProp settings ''dsn'' of
               TypeError \<Rightarrow> TypeError
             | Unmodelled \<Rightarrow> Unmodelled
             | Normal dsn \<Rightarrow>
                 if dsn = JUndefined \<or> dsn = JNull then
                   Normal (Inl ''No dsn field found in ingest file under settings.'')
                 else
                   (case assureUniformDSN e dsn of
                      TypeError \<Rightarrow> TypeError
                    | Unmodelled \<Rightarrow> Unmodelled
                    | Normal (Inl err) \<Rightarrow> Normal (Inl err)
                    | Normal (Inr dsn') \<Rightarrow>
                        (case setProp settings ''dsn'' dsn' of
                           TypeError \<Rightarrow> TypeError
                         | Unmodelled \<Rightarrow> Unmodelled
                         | Normal settings' \<Rightarrow>
                             (case setProp rawFile ''settings'' settings' of
                                TypeError \<Rightarrow> TypeError
                              | Unmodelled \<Rightarrow> Unmodelled
                              | Normal rawFile' \<Rightarrow>
                                  (case getProp rawFile' ''assets'' of
                                     TypeError \<Rightarrow> TypeError
                                   | Unmodelled \<Rightarrow> Unmodelled
                                   | Normal assets \<Rightarrow>
                                       if assets = JUndefined \<or> assets = JNull then
                                         Normal (Inl ''No assets field and corresponding object found in ingest file.'')
                                       else
                                         (case assets of
                                            JArr (a # as) \<Rightarrow>
                                              (case verifyAssets e 0 (a # as) of
                                                 TypeError \<Rightarrow> TypeError
                                               | Unmodelled \<Rightarrow> Unmodelled
                                               | Normal (Inl err) \<Rightarrow> Normal (Inl err)
                                               | Normal (Inr assets') \<Rightarrow>
                                                   (case setProp rawFile' ''assets'' (JArr assets') of
                                                      TypeError \<Rightarrow> TypeError
                                                    | Unmodelled \<Rightarrow> Unmodelled
                                                    | Normal rawFile'' \<Rightarrow> Normal (Inr rawFile'')))
                                          | _ \<Rightarrow>
                                              Normal (Inl ''Assets field in ingest file is not an array or is an empty array.''))))))))"

subsection \<open>Sub-files\<close>

definition readIngestFile :: "env \<Rightarrow> string \<Rightarrow> jsval ResErr" where
  "readIngestFile e url =
     (if \<not> fileExists e url then
        Inl (''File: '' @ [CHR 0x22] @ url @ [CHR 0x22] @ '' does not exist. WD: '' @ metaDir e)
      else
        (case JSON_parse e (fileText e url) of
           Inl error \<Rightarrow> Inl (''Failed to parse IngestFile: '' @ error)
         | Inr ingestScript \<Rightarrow> Inr ingestScript))"

text \<open>
  The declaration as the type checker is given it. Modelled from the spec: the names of
  the two bounds in the document are not in the verified files.
\<close>

definition subFileJSON :: "SettingsSubFile \<Rightarrow> jsval" where
  "subFileJSON d =
     JObj [(''path'', JStr (path d)), (''start'', JNum (rangeStart d)), (''end'', JNum (rangeEnd d))]"

text \<open>
  The loop of \<^verbatim>\<open>handleSubFiles\<close> over the declarations not yet visited, with
  \<^verbatim>\<open>verifiedSubFiles\<close> as it stands. The lines logged (all at \<^verbatim>\<open>LogLevel.ERROR\<close>) come
  first. \<^verbatim>\<open>if (verifyError)\<close> and \<^verbatim>\<open>if (idCheckError)\<close> test truthiness: an empty string
  passes for no error.
\<close>

fun subFilesLoop :: "env \<Rightarrow> SettingsSubFile list \<Rightarrow> jsval list \<Rightarrow> string list \<times> (jsval list) ResErr" where
  "subFilesLoop e [] verifiedSubFiles = ([], Inr verifiedSubFiles)"
| "subFilesLoop e (subFileDeclaration # rest) verifiedSubFiles =
     (case conformsToType e (subFileJSON subFileDeclaration) INGEST_FILE_SETTINGS_TYPEDECL of
        Some typeCheck \<Rightarrow>
          ([''[if_cmd] Type error in sub-file declaration: '' @ typeCheck],
           Inl (''Type error in sub-file declaration: '' @ typeCheck))
      | None \<Rightarrow>
          (case readIngestFile e (path subFileDeclaration) of
             Inl error \<Rightarrow>
               ([''[if_cmd] Failed to read sub-file: '' @ path subFileDeclaration
                 @ [CHR 0x0A, CHR 0x09] @ error],
                Inl error)
           | Inr result \<Rightarrow>
               (case verifyIngestFileAssets e result of
                  (result', Some (c # cs)) \<Rightarrow>
                    ([''[if_cmd] Failed to verify sub-file: '' @ path subFileDeclaration
                      @ [CHR 0x0A, CHR 0x09] @ (c # cs)],
                     Inl (c # cs))
                | (result', _) \<Rightarrow>
                    (case verifySubFileIDAssignments e subFileDeclaration result' of
                       Some (c # cs) \<Rightarrow>
                         ([''[if_cmd] ID assignment error in sub-file: '' @ path subFileDeclaration
                           @ [CHR 0x0A, CHR 0x09] @ (c # cs)],
                          Inl (c # cs))
                     | _ \<Rightarrow> subFilesLoop e rest (verifiedSubFiles @ [result'])))))"

definition handleSubFiles :: "env \<Rightarrow> SettingsSubFile list option \<Rightarrow> string list \<times> (jsval list) ResErr" where
  "handleSubFiles e subFiles =
     (case subFiles of
        None \<Rightarrow> ([], Inr [])
      | Some [] \<Rightarrow> ([], Inr [])
      | Some (d # ds) \<Rightarrow>
          (case checkIDRangesOfSubFiles e (d # ds) of
             Some (c # cs) \<Rightarrow> ([''[if_cmd] Range check failed: '' @ (c # cs)], Inl (c # cs))
           | _ \<Rightarrow> subFilesLoop e (d # ds) []))"

section \<open>The checks of the sub-file ranges, from the specification\<close>

definition showInt :: "int \<Rightarrow> string" where
  "showInt i = (if i < 0 then ''-'' @ showNat (nat (- i)) else showNat (nat i))"

text \<open>
  The two errors of the range check. The specification fixes which declarations an error
  names, not its wording.
\<close>

definition malformedRangeError :: "SettingsSubFile \<Rightarrow> string" where
  "malformedRangeError d =
     ''Sub-file '' @ path d @ '' declares an id range that starts at '' @ showInt (rangeStart d)
     @ '' and ends at '' @ showInt (rangeEnd d)"

definition overlapError :: "SettingsSubFile \<Rightarrow> SettingsSubFile \<Rightarrow> string" where
  "overlapError a b =
     ''The id ranges of sub-files '' @ path a @ '' and '' @ path b @ '' overlap''"

text \<open>The scan of the sorted declarations: \<^verbatim>\<open>current.end >= next.start\<close> is an overlap.\<close>

fun scanAdjacent :: "SettingsSubFile list \<Rightarrow> string option" where
  "scanAdjacent (current # next # rest) =
     (if rangeEnd current \<ge> rangeStart next then Some (overlapError current next)
      else scanAdjacent (next # rest))"
| "scanAdjacent _ = None"

text \<open>
  Modelled from the spec: \<^verbatim>\<open>checkIDRangesOfSubFiles\<close> of \<^verbatim>\<open>ingestFileVerifier.ts\<close>, which is
  not among the verified files. Each declaration must have \<open>start \<le> end\<close>, the first
  violation fails; then the declarations are sorted by their start, stably, and adjacent
  pairs are scanned.
\<close>

definition checkIDRangesOfSubFiles_spec :: "SettingsSubFile list \<Rightarrow> string option" where
  "checkIDRangesOfSubFiles_spec subFiles =
     (case find (\<lambda>d. rangeStart d > rangeEnd d) subFiles of
        Some d \<Rightarrow> Some (malformedRangeError d)
      | None \<Rightarrow> scanAdjacent (sort_key rangeStart subFiles))"

text \<open>Two inclusive ranges overlap when they share an identifier.\<close>

definition overlap :: "SettingsSubFile \<Rightarrow> SettingsSubFile \<Rightarrow> bool" where
  "overlap a b = (rangeStart a \<le> rangeEnd b \<and> rangeStart b \<le> rangeEnd a)"

text \<open>No two declarations, at different positions of the list, overlap.\<close>

definition pairwiseDisjoint :: "SettingsSubFile list \<Rightarrow> bool" where
  "pairwiseDisjoint ds = sorted_wrt (\<lambda>a b. \<not> overlap a b) ds"

definition outOfRangeError :: "int \<Rightarrow> int \<Rightarrow> string" where
  "outOfRangeError ident bound =
     ''Asset id '' @ showInt ident @ '' is outside the declared id range, bound '' @ showInt bound"

text \<open>
  Modelled from the spec: \<^verbatim>\<open>verifySubFileIDAssignments\<close> of \<^verbatim>\<open>ingestFileVerifier.ts\<close>, which
  is not among the verified files, over the asset identifiers found in the sub-manifest:
  the first identifier outside \<open>[start, end]\<close> fails, with the identifier and the bound
  it violates.
\<close>

fun verifySubFileIDAssignments_spec :: "SettingsSubFile \<Rightarrow> int list \<Rightarrow> string option" where
  "verifySubFileIDAssignments_spec d [] = None"
| "verifySubFileIDAssignments_spec d (ident # rest) =
     (if ident < rangeStart d then Some (outOfRangeError ident (rangeStart d))
      else if ident > rangeEnd d then Some (outOfRangeError ident (rangeEnd d))
      else verifySubFileIDAssignments_spec d rest)"

section \<open>Levels of detail\<close>

record Blob =
  bytes :: "nat list"
  blob_type :: string

definition blob_size :: "Blob \<Rightarrow> nat" where
  "blob_size b = length (bytes b)"

record LODDTO =
  detailLevel :: nat
  blob :: Blob
  type :: string

text \<open>
  What \<^verbatim>\<open>lodGenerator.ts\<close> imports: the two functions of the type checker and of the image
  utilities, the member \<^verbatim>\<open>ImageMIMEType.SVG\<close>, and the \<^verbatim>\<open>sharp\<close> library. \<open>sharpHalve\<close> is
  what \<^verbatim>\<open>downscaleImage\<close> does with it: the bytes of the image resized to half its width
  and height and encoded in its format, or the message of what was thrown or of the
  format that is not supported.
\<close>

record lodEnv =
  findConformingMIMEType :: "string \<Rightarrow> string ResErr"
  checkIfImageTypeIsSupported :: "string \<Rightarrow> bool"
  SVG :: string
  sharpHalve :: "Blob \<Rightarrow> string + nat list"

definition downscaleImage :: "lodEnv \<Rightarrow> Blob \<Rightarrow> Blob ResErr" where
  "downscaleImage e b =
     (case sharpHalve e b of
        Inl message \<Rightarrow> Inl message
      | Inr outputBuffer \<Rightarrow> Inr \<lparr>bytes = outputBuffer, blob_type = blob_type b\<rparr>)"

text \<open>
  The \<^verbatim>\<open>while\<close> loop of \<^verbatim>\<open>generateLODs\<close>. Nothing in the source bounds it, so it runs on
  fuel: \<open>None\<close> is a loop still running when the fuel is gone.
\<close>

fun lodLoop :: "lodEnv \<Rightarrow> real \<Rightarrow> string \<Rightarrow> nat \<Rightarrow> LODDTO list \<Rightarrow> Blob \<Rightarrow> nat \<Rightarrow> (LODDTO list) ResErr option" where
  "lodLoop e sizeThreshold blobType fuel lodsGenerated currentBlob level =
     (if real (blob_size currentBlob) / 1000 > sizeThreshold then
        (case fuel of
           0 \<Rightarrow> None
         | Suc fuel' \<Rightarrow>
             (case downscaleImage e currentBlob of
                Inl error \<Rightarrow> Some (Inl error)
              | Inr result \<Rightarrow>
                  lodLoop e sizeThreshold blobType fuel'
                    (lodsGenerated @ [\<lparr>detailLevel = level, blob = result, type = blobType\<rparr>])
                    result (level + 1)))
      else Some (Inr lodsGenerated))"

declare lodLoop.simps [simp del]

text \<open>
  \<^verbatim>\<open>if (typeOverwrite)\<close> tests truthiness: an absent and an empty override both leave the
  type to \<^verbatim>\<open>findConformingMIMEType\<close>. The threshold is in kilobytes, a real number here
  (the source's \<^verbatim>\<open>NaN\<close> and infinities are left out). The lines logged are left out too.
\<close>

definition generateLODs :: "lodEnv \<Rightarrow> nat \<Rightarrow> Blob \<Rightarrow> real \<Rightarrow> string option \<Rightarrow> (LODDTO list) ResErr option" where
  "generateLODs e fuel b sizeThreshold typeOverwrite =
     (case (case typeOverwrite of
              Some (c # cs) \<Rightarrow> Inr (c # cs)
            | _ \<Rightarrow> findConformingMIMEType e (blob_type b)) of
        Inl error \<Rightarrow> Some (Inl error)
      | Inr blobType \<Rightarrow>
          if \<not> checkIfImageTypeIsSupported e blobType then
            Some (Inl (''Unsupported image type: '' @ blob_type b))
          else if blob_size b = 0 then Some (Inl ''This blob is empty.'')
          else if blobType = SVG e then
            Some (Inr [\<lparr>detailLevel = 0, blob = b, type = blobType\<rparr>])
          else if real (blob_size b) / 1000 < sizeThreshold then
            Some (Inr [\<lparr>detailLevel = 0, blob = b, type = blobType\<rparr>])
          else
            lodLoop e sizeThreshold blobType fuel [\<lparr>detailLevel = 0, blob = b, type = blobType\<rparr>] b 1)"

section \<open>What the specification says of the collaborators\<close>

text \<open>
  Modelled from the spec: \<^verbatim>\<open>readCompactDSNNotationRaw\<close> of \<^verbatim>\<open>cliInputProcessor.ts\<close>, which is
  not among the verified files. A DSN in compact notation normalizes to the canonical
  structured shape: an object the schema accepts, with \<^verbatim>\<open>sslMode\<close> present.
\<close>

definition compactDSNIsCanonical :: "env \<Rightarrow> bool" where
  "compactDSNIsCanonical e =
     (\<forall>s r. readCompactDSNNotationRaw e s = Inr r \<longrightarrow>
        (\<exists>ps v. r = JObj ps \<and> map_of ps ''sslMode'' = Some v \<and> \<not> nullish v
           \<and> conformsToType e r DBDSN_TYPEDECL = None))"

text \<open>
  Modelled from the spec: \<^verbatim>\<open>conformsToType\<close> of \<^verbatim>\<open>typeChecker.ts\<close> with \<^verbatim>\<open>DBDSN_TYPEDECL\<close>, both
  not among the verified files. \<^verbatim>\<open>sslMode\<close> is optional in a DSN and \<^verbatim>\<open>"disable"\<close> is its
  default, so an object that conforms still conforms with the default filled in.
\<close>

definition defaultSslModeConforms :: "env \<Rightarrow> bool" where
  "defaultSslModeConforms e =
     (\<forall>ps. conformsToType e (JObj ps) DBDSN_TYPEDECL = None \<longrightarrow>
        conformsToType e (JObj (AList.update ''sslMode'' (JStr ''disable'') ps)) DBDSN_TYPEDECL = None)"

section \<open>An environment for the examples\<close>

text \<open>
  The DSN of the first end-to-end scenario of the specification, and collaborators to run
  the examples with: a type checker that accepts every object, readers of the compact
  notations that know one string each, and a file system with one file that does not
  parse.
\<close>

definition exampleDSN :: jsval where
  "exampleDSN =
     JObj [(''host'', JStr ''localhost''), (''port'', JNum 5432), (''username'', JStr ''admin''),
           (''password'', JStr ''secret''), (''dbName'', JStr ''assetsdb''), (''sslMode'', JStr ''disable'')]"

definition exampleEnv :: env where
  "exampleEnv =
     \<lparr>conformsToType = (\<lambda>v t. case v of JObj ps \<Rightarrow> None | _ \<Rightarrow> Some ''Value is not an object''),
      readCompactDSNNotationRaw =
        (\<lambda>s. if s = ''localhost 5432, admin secret, assetsdb, disable'' then Inr exampleDSN
             else Inl ''DSN string is not in compact notation''),
      readCompactTransformNotationRaw =
        (\<lambda>s. if s = ''rotate 90'' then Inr (JObj [(''rotate'', JNum 90)])
             else Inl ''Transform string is not in compact notation''),
      fileExists = (\<lambda>url. url = ''sub.json''),
      fileText = (\<lambda>url. ''{''),
      JSON_parse = (\<lambda>t. Inl ''SyntaxError: JSON Parse error: Expected }''),
      metaDir = ''/app'',
      checkIDRangesOfSubFiles = checkIDRangesOfSubFiles_spec,
      verifyIngestFileAssets = (\<lambda>doc. (doc, None)),
      verifySubFileIDAssignments = (\<lambda>d doc. None)\<rparr>"

text \<open>A collection asset with the given entries.\<close>

definition exampleCollection :: "jsval list \<Rightarrow> jsval" where
  "exampleCollection entries =
     JObj [(''type'', JStr ''collection''), (''useCase'', JStr ''splash''), (''name'', JStr ''frames''),
           (''collection'', JObj [(''entries'', JArr entries)])]"

text \<open>
  Collaborators for the levels of detail: three supported types, \<^verbatim>\<open>image/jpg\<close> conforming to
  \<^verbatim>\<open>image/jpeg\<close>, and a downscaling that keeps a quarter of the bytes.
\<close>

definition exampleLodEnv :: lodEnv where
  "exampleLodEnv =
     \<lparr>findConformingMIMEType =
        (\<lambda>t. if t \<in> {''image/jpeg'', ''image/png'', ''image/svg+xml''} then Inr t
             else if t = ''image/jpg'' then Inr ''image/jpeg''
             else Inl ''No conforming MIME type''),
      checkIfImageTypeIsSupported = (\<lambda>t. t \<in> {''image/jpeg'', ''image/png'', ''image/svg+xml''}),
      SVG = ''image/svg+xml'',
      sharpHalve = (\<lambda>b. Inr (take (length (bytes b) div 4) (bytes b)))\<rparr>"

text \<open>
  A sub-manifest with two assets, and collaborators that retrieve it for every path and
  check the identifiers of its assets, the \<^verbatim>\<open>id\<close> of each, against the declaration.
\<close>

definition assetIds :: "jsval \<Rightarrow> int list" where
  "assetIds doc =
     (case getProp doc ''assets'' of
        Normal (JArr assets) \<Rightarrow>
          concat (map (\<lambda>asset. case getProp asset ''id'' of Normal (JNum n) \<Rightarrow> [n] | _ \<Rightarrow> []) assets)
      | _ \<Rightarrow> [])"

definition exampleSubManifest :: jsval where
  "exampleSubManifest =
     JObj [(''assets'',
            JArr [JObj [(''type'', JStr ''single''), (''useCase'', JStr ''icon''), (''id'', JNum 3), (''single'', JObj [])],
                  JObj [(''type'', JStr ''single''), (''useCase'', JStr ''icon''), (''id'', JNum 11), (''single'', JObj [])]])]"

definition exampleSubEnv :: env where
  "exampleSubEnv =
     exampleEnv\<lparr>JSON_parse := (\<lambda>t. Inr exampleSubManifest),
                verifySubFileIDAssignments := (\<lambda>d doc. verifySubFileIDAssignments_spec d (assetIds doc))\<rparr>"

section \<open>Reading and writing properties\<close>

lemma getProp_setProp_other:
  "setProp v k x = Normal v' \<Longrightarrow> k' \<noteq> k \<Longrightarrow> getProp v' k' = getProp v k'"
  by (cases v) (auto simp: update_conv')

lemma getProp_setProp_same:
  "setProp v k x = Normal v' \<Longrightarrow> getProp v' k = Normal x"
  by (cases v) (auto simp: update_conv')

lemma getProp_Normal_not_nullish:
  "getProp v k = Normal x \<Longrightarrow> \<not> nullish x \<Longrightarrow> k \<noteq> ''length'' \<Longrightarrow> \<exists>ps. v = JObj ps"
  by (cases v) (auto simp: nullish_def split: if_splits)

section \<open>The root of the manifest\<close>

text \<open>
  C9. \<^verbatim>\<open>verifyIngestFile\<close> is to return a result or an error for every value the parser can
  give it, and never to throw. It does throw: a manifest file that holds \<^verbatim>\<open>null\<close> parses to
  \<^verbatim>\<open>null\<close>, and the first line, \<^verbatim>\<open>rawFile.settings\<close>, reads a property of it.
\<close>

theorem verifyIngestFile_null_throws: "verifyIngestFile e JNull = TypeError"
  by (simp add: verifyIngestFile_def)

lemma verifyIngestFile_no_result_without_root_field:
  assumes "getProp rawFile ''settings'' = Normal s" and "getProp rawFile ''assets'' = Normal a"
    and "nullish s \<or> nullish a"
  shows "verifyIngestFile e rawFile \<noteq> Normal (Inr r)"
  using assms
  by (auto simp: verifyIngestFile_def nullish_def getProp_setProp_other
      split: completion.splits sum.splits if_splits)

text \<open>
  C1, as the code has it. Let the manifest be a value whose properties can be read, with
  \<^verbatim>\<open>settings\<close> or \<^verbatim>\<open>assets\<close> absent or null. Then \<^verbatim>\<open>verifyIngestFile\<close> returns no verified
  result. Its error names \<^verbatim>\<open>settings\<close> when \<^verbatim>\<open>settings\<close> is the missing one. When \<^verbatim>\<open>settings\<close>
  is there, the DSN is looked at before \<^verbatim>\<open>assets\<close>: the error is the one of a missing
  \<^verbatim>\<open>dsn\<close>, or the one \<^verbatim>\<open>assureUniformDSN\<close> returned, and it names \<^verbatim>\<open>assets\<close> only when the
  DSN is there and normalizes.
\<close>

theorem verifyIngestFile_missing_root_field:
  assumes "getProp rawFile ''settings'' = Normal s" and "getProp rawFile ''assets'' = Normal a"
    and "nullish s \<or> nullish a"
  shows "verifyIngestFile e rawFile \<noteq> Normal (Inr r)
       \<and> (nullish s \<longrightarrow>
            verifyIngestFile e rawFile =
              Normal (Inl ''No settings field and corresponding object found in ingest file.''))
       \<and> (\<not> nullish s \<and> getProp s ''dsn'' = Normal d \<and> nullish d \<longrightarrow>
            verifyIngestFile e rawFile = Normal (Inl ''No dsn field found in ingest file under settings.''))
       \<and> (\<not> nullish s \<and> getProp s ''dsn'' = Normal d \<and> \<not> nullish d
            \<and> assureUniformDSN e d = Normal (Inl err) \<longrightarrow>
            verifyIngestFile e rawFile = Normal (Inl err))
       \<and> (\<not> nullish s \<and> getProp s ''dsn'' = Normal d \<and> \<not> nullish d
            \<and> assureUniformDSN e d = Normal (Inr d') \<longrightarrow>
            verifyIngestFile e rawFile =
              Normal (Inl ''No assets field and corresponding object found in ingest file.''))"
proof (intro conjI impI)
  show "verifyIngestFile e rawFile \<noteq> Normal (Inr r)"
    using assms by (rule verifyIngestFile_no_result_without_root_field)
next
  assume "nullish s"
  with assms show "verifyIngestFile e rawFile =
      Normal (Inl ''No settings field and corresponding object found in ingest file.'')"
    by (auto simp: verifyIngestFile_def nullish_def)
next
  assume "\<not> nullish s \<and> getProp s ''dsn'' = Normal d \<and> nullish d"
  with assms show "verifyIngestFile e rawFile = Normal (Inl ''No dsn field found in ingest file under settings.'')"
    by (auto simp: verifyIngestFile_def nullish_def)
next
  assume "\<not> nullish s \<and> getProp s ''dsn'' = Normal d \<and> \<not> nullish d
            \<and> assureUniformDSN e d = Normal (Inl err)"
  with assms show "verifyIngestFile e rawFile = Normal (Inl err)"
    by (auto simp: verifyIngestFile_def nullish_def)
next
  assume h: "\<not> nullish s \<and> getProp s ''dsn'' = Normal d \<and> \<not> nullish d
            \<and> assureUniformDSN e d = Normal (Inr d')"
  from h assms obtain rs where rs: "rawFile = JObj rs"
    using getProp_Normal_not_nullish [of rawFile "''settings''" s] by auto
  from h obtain ss where ss: "s = JObj ss"
    using getProp_Normal_not_nullish [of s "''dsn''" d] by auto
  from h assms rs ss show "verifyIngestFile e rawFile =
      Normal (Inl ''No assets field and corresponding object found in ingest file.'')"
    by (auto simp: verifyIngestFile_def nullish_def update_conv' split: option.splits)
qed

theorem verifyIngestFile_missing_root_field_witness:
  "getProp (JObj [(''settings'', JObj [(''dsn'', JStr ''localhost 5432, admin secret, assetsdb, disable'')])])
      ''settings'' = Normal (JObj [(''dsn'', JStr ''localhost 5432, admin secret, assetsdb, disable'')])
   \<and> getProp (JObj [(''settings'', JObj [(''dsn'', JStr ''localhost 5432, admin secret, assetsdb, disable'')])])
      ''assets'' = Normal JUndefined
   \<and> nullish JUndefined
   \<and> \<not> nullish (JObj [(''dsn'', JStr ''localhost 5432, admin secret, assetsdb, disable'')])
   \<and> \<not> nullish (JStr ''localhost 5432, admin secret, assetsdb, disable'')
   \<and> assureUniformDSN exampleEnv (JStr ''localhost 5432, admin secret, assetsdb, disable'')
        = Normal (Inr exampleDSN)
   \<and> verifyIngestFile exampleEnv
        (JObj [(''settings'', JObj [(''dsn'', JStr ''localhost 5432, admin secret, assetsdb, disable'')])])
        = Normal (Inl ''No assets field and corresponding object found in ingest file.'')
   \<and> getProp (JObj [(''assets'', JArr [])]) ''settings'' = Normal JUndefined
   \<and> verifyIngestFile exampleEnv (JObj [(''assets'', JArr [])])
        = Normal (Inl ''No settings field and corresponding object found in ingest file.'')"
  using verifyIngestFile_missing_root_field
          [where rawFile = "JObj [(''settings'', JObj [(''dsn'', JStr ''localhost 5432, admin secret, assetsdb, disable'')])]"
             and s = "JObj [(''dsn'', JStr ''localhost 5432, admin secret, assetsdb, disable'')]"
             and a = JUndefined and e = exampleEnv
             and d = "JStr ''localhost 5432, admin secret, assetsdb, disable''" and d' = exampleDSN]
        verifyIngestFile_missing_root_field
          [where rawFile = "JObj [(''assets'', JArr [])]" and s = JUndefined and a = "JArr []"
             and e = exampleEnv]
  by (simp add: nullish_def assureUniformDSN_def exampleEnv_def)

theorem verifyIngestFile_missing_assets_counterexample:
  "getProp (JObj [(''settings'', JObj [(''dsn'', JNum 5)])]) ''assets'' = Normal JUndefined
   \<and> verifyIngestFile exampleEnv (JObj [(''settings'', JObj [(''dsn'', JNum 5)])]) =
       Normal (Inl (''DSN field is not compact CLI notation ('' @ [CHR 0x22]
                    @ ''host port, username password, dbName, sslMode'' @ [CHR 0x22]
                    @ '') or an object.''))
   \<and> \<not> sublist ''assets''
         (''DSN field is not compact CLI notation ('' @ [CHR 0x22]
          @ ''host port, username password, dbName, sslMode'' @ [CHR 0x22] @ '') or an object.'')"
  by (simp add: verifyIngestFile_def assureUniformDSN_def sublist_Cons_right)

section \<open>The DSN\<close>

text \<open>
  C2, as the code has it. A DSN given as an object that the type checker accepts is
  normalized successfully. In the result \<^verbatim>\<open>sslMode\<close> is present: it is \<^verbatim>\<open>"disable"\<close> when
  the \<^verbatim>\<open>sslMode\<close> given was absent or null and it is the \<^verbatim>\<open>sslMode\<close> given otherwise, which
  may be \<^verbatim>\<open>"disable"\<close> too. Every other field reads as before.
\<close>

theorem assureUniformDSN_object:
  assumes "conformsToType e (JObj ps) DBDSN_TYPEDECL = None"
    and "getProp (JObj ps) ''sslMode'' = Normal m"
  shows "\<exists>r. assureUniformDSN e (JObj ps) = Normal (Inr r)
           \<and> getProp r ''sslMode'' = Normal (if nullish m then JStr ''disable'' else m)
           \<and> \<not> nullish (if nullish m then JStr ''disable'' else m)
           \<and> (\<forall>k. k \<noteq> ''sslMode'' \<longrightarrow> getProp r k = getProp (JObj ps) k)"
  using assms
  by (auto simp: assureUniformDSN_def nullish_def update_conv' split: option.splits)

theorem assureUniformDSN_object_witness:
  "conformsToType exampleEnv (JObj [(''host'', JStr ''localhost''), (''port'', JNum 5432)]) DBDSN_TYPEDECL = None
   \<and> getProp (JObj [(''host'', JStr ''localhost''), (''port'', JNum 5432)]) ''sslMode'' = Normal JUndefined
   \<and> assureUniformDSN exampleEnv (JObj [(''host'', JStr ''localhost''), (''port'', JNum 5432)])
       = Normal (Inr (JObj [(''host'', JStr ''localhost''), (''port'', JNum 5432), (''sslMode'', JStr ''disable'')]))"
  using assureUniformDSN_object [where e = exampleEnv
      and ps = "[(''host'', JStr ''localhost''), (''port'', JNum 5432)]" and m = JUndefined]
  by (simp add: exampleEnv_def nullish_def assureUniformDSN_def)

theorem assureUniformDSN_sslMode_counterexample:
  "conformsToType exampleEnv exampleDSN DBDSN_TYPEDECL = None
   \<and> getProp exampleDSN ''sslMode'' = Normal (JStr ''disable'')
   \<and> \<not> nullish (JStr ''disable'')
   \<and> assureUniformDSN exampleEnv exampleDSN = Normal (Inr exampleDSN)"
  by (simp add: exampleEnv_def exampleDSN_def nullish_def assureUniformDSN_def)

text \<open>
  C7. Let the reader of the compact notation give canonical DSNs and let the type checker
  accept a conforming DSN with the default filled in, as the specification has them. Then
  for every DSN value, a string or an object, on which \<^verbatim>\<open>assureUniformDSN\<close> succeeds,
  \<^verbatim>\<open>assureUniformDSN\<close> succeeds on the value returned and returns that same value.
\<close>

theorem assureUniformDSN_idempotent:
  assumes "compactDSNIsCanonical e" and "defaultSslModeConforms e"
    and "assureUniformDSN e d = Normal (Inr r)"
  shows "assureUniformDSN e r = Normal (Inr r)"
proof (cases d)
  case (JStr s)
  with assms(3) have "readCompactDSNNotationRaw e s = Inr r"
    by (auto simp: assureUniformDSN_def split: sum.splits)
  with assms(1) obtain ps v where "r = JObj ps" "map_of ps ''sslMode'' = Some v" "\<not> nullish v"
      "conformsToType e r DBDSN_TYPEDECL = None"
    unfolding compactDSNIsCanonical_def by blast
  then show ?thesis
    by (simp add: assureUniformDSN_def nullish_def)
next
  case (JObj ps)
  with assms(3) have c: "conformsToType e (JObj ps) DBDSN_TYPEDECL = None"
    by (auto simp: assureUniformDSN_def split: option.splits)
  show ?thesis
  proof (cases "nullish (case map_of ps ''sslMode'' of None \<Rightarrow> JUndefined | Some v \<Rightarrow> v)")
    case True
    with assms(3) JObj c have r: "r = JObj (AList.update ''sslMode'' (JStr ''disable'') ps)"
      by (auto simp: assureUniformDSN_def nullish_def)
    from assms(2) c have "conformsToType e r DBDSN_TYPEDECL = None"
      unfolding r defaultSslModeConforms_def by blast
    then show ?thesis
      by (simp add: r assureUniformDSN_def update_conv')
  next
    case False
    with assms(3) JObj c have r: "r = JObj ps"
      by (auto simp: assureUniformDSN_def nullish_def)
    from False c show ?thesis
      by (simp add: r assureUniformDSN_def nullish_def)
  qed
qed (use assms(3) in \<open>auto simp: assureUniformDSN_def split: option.splits\<close>)

theorem assureUniformDSN_idempotent_witness:
  "compactDSNIsCanonical exampleEnv \<and> defaultSslModeConforms exampleEnv
   \<and> assureUniformDSN exampleEnv (JStr ''localhost 5432, admin secret, assetsdb, disable'') = Normal (Inr exampleDSN)
   \<and> assureUniformDSN exampleEnv exampleDSN = Normal (Inr exampleDSN)
   \<and> assureUniformDSN exampleEnv (JObj [(''host'', JStr ''localhost'')])
       = Normal (Inr (JObj [(''host'', JStr ''localhost''), (''sslMode'', JStr ''disable'')]))
   \<and> assureUniformDSN exampleEnv (JObj [(''host'', JStr ''localhost''), (''sslMode'', JStr ''disable'')])
       = Normal (Inr (JObj [(''host'', JStr ''localhost''), (''sslMode'', JStr ''disable'')]))"
proof -
  have c: "compactDSNIsCanonical exampleEnv"
    by (auto simp: compactDSNIsCanonical_def exampleEnv_def exampleDSN_def nullish_def)
  have s: "defaultSslModeConforms exampleEnv"
    by (simp add: defaultSslModeConforms_def exampleEnv_def)
  have a: "assureUniformDSN exampleEnv (JStr ''localhost 5432, admin secret, assetsdb, disable'') = Normal (Inr exampleDSN)"
    by (simp add: assureUniformDSN_def exampleEnv_def)
  have b: "assureUniformDSN exampleEnv (JObj [(''host'', JStr ''localhost'')])
       = Normal (Inr (JObj [(''host'', JStr ''localhost''), (''sslMode'', JStr ''disable'')]))"
    by (simp add: assureUniformDSN_def exampleEnv_def)
  show ?thesis
    using c s a b assureUniformDSN_idempotent [OF c s a] assureUniformDSN_idempotent [OF c s b]
    by simp
qed

section \<open>The assets of the manifest\<close>

lemma verifyAssets_append:
  "verifyAssets e i pre = Normal (Inr pre') \<Longrightarrow>
   verifyAssets e i (pre @ rest) =
     (case verifyAssets e (i + length pre) rest of
        Normal (Inr rest') \<Rightarrow> Normal (Inr (pre' @ rest'))
      | other \<Rightarrow> other)"
proof (induction pre arbitrary: i pre')
  case Nil
  then show ?case by (auto split: completion.splits sum.splits)
next
  case (Cons a pre)
  from Cons.prems obtain a' ps where a': "verifyAsset e i a = Normal (Inr a')"
    and ps: "verifyAssets e (Suc i) pre = Normal (Inr ps)" and pre': "pre' = a' # ps"
    by (auto split: completion.splits sum.splits)
  show ?case
    using Cons.IH [OF ps] a' pre'
    by (auto split: completion.splits sum.splits)
qed

lemma verifyAsset_accepts_known_types:
  "verifyAsset e i a = Normal (Inr a') \<Longrightarrow> getProp a ''type'' = Normal ty \<Longrightarrow>
   ty = JStr ''single'' \<or> ty = JStr ''collection''"
  by (auto simp: verifyAsset_def split: completion.splits if_splits)

lemma verifyAssets_accepts_known_types:
  "verifyAssets e i es = Normal (Inr es') \<Longrightarrow> a \<in> set es \<Longrightarrow> getProp a ''type'' = Normal ty \<Longrightarrow>
   ty = JStr ''single'' \<or> ty = JStr ''collection''"
proof (induction es arbitrary: i es')
  case Nil
  then show ?case by simp
next
  case (Cons b es)
  from Cons.prems(1) obtain b' bs where b': "verifyAsset e i b = Normal (Inr b')"
    and bs: "verifyAssets e (Suc i) es = Normal (Inr bs)"
    by (auto split: completion.splits sum.splits)
  show ?case
  proof (cases "a = b")
    case True
    with b' Cons.prems(3) show ?thesis
      using verifyAsset_accepts_known_types by blast
  next
    case False
    with Cons.prems(2) have "a \<in> set es" by simp
    then show ?thesis
      using Cons.IH [OF bs _ Cons.prems(3)] by simp
  qed
qed

lemma verifyAsset_unknown_type:
  assumes "getProp asset ''type'' = Normal ty" and "\<not> nullish ty"
    and "ty \<noteq> JStr ''single''" and "ty \<noteq> JStr ''collection''"
    and "getProp asset ''useCase'' = Normal u"
  shows "verifyAsset e i asset =
           Normal (Inl (if nullish u then ''No useCase field found in asset nr:'' @ showNat i
                        else ''Unknown asset type in asset nr:'' @ showNat i))"
  using assms by (auto simp: verifyAsset_def nullish_def)

lemma verifyIngestFile_result_assets:
  "verifyIngestFile e rawFile = Normal (Inr r) \<Longrightarrow> getProp rawFile ''assets'' = Normal (JArr es) \<Longrightarrow>
   \<exists>es'. verifyAssets e 0 es = Normal (Inr es')"
  by (auto simp: verifyIngestFile_def getProp_setProp_other
      split: completion.splits sum.splits if_splits jsval.splits list.splits)

lemma assureUniformDSN_result_not_nullish:
  "assureUniformDSN e d = Normal (Inr d') \<Longrightarrow> \<not> nullish d"
  by (cases d) (auto simp: assureUniformDSN_def nullish_def split: option.splits)

lemma verifyIngestFile_reaches_assets:
  assumes "getProp rawFile ''settings'' = Normal s" and "getProp s ''dsn'' = Normal d"
    and "assureUniformDSN e d = Normal (Inr d')"
    and "getProp rawFile ''assets'' = Normal (JArr (a # as))"
    and "verifyAssets e 0 (a # as) = Normal (Inl err)"
  shows "verifyIngestFile e rawFile = Normal (Inl err)"
proof -
  have d: "\<not> nullish d"
    using assms(3) by (rule assureUniformDSN_result_not_nullish)
  obtain ss where ss: "s = JObj ss"
    using getProp_Normal_not_nullish [OF assms(2) d] by auto
  have "\<not> nullish s" by (simp add: ss nullish_def)
  then obtain rs where rs: "rawFile = JObj rs"
    using getProp_Normal_not_nullish [OF assms(1)] by auto
  from assms d rs ss show ?thesis
    by (auto simp: verifyIngestFile_def nullish_def update_conv' split: option.splits)
qed

text \<open>
  C5, as the code has it. A manifest whose assets hold an entry with a \<^verbatim>\<open>type\<close> that is
  present and is neither \<^verbatim>\<open>"single"\<close> nor \<^verbatim>\<open>"collection"\<close> is never verified: the entry is
  not skipped and not taken for a known variant. When the DSN normalizes and the entries
  before it pass, the error names the index of the entry: it is the unknown-type error
  when the entry has a \<^verbatim>\<open>useCase\<close>, and the error of the missing \<^verbatim>\<open>useCase\<close>, which is
  looked at first, when it has none.
\<close>

theorem verifyIngestFile_unknown_type:
  assumes "getProp rawFile ''assets'' = Normal (JArr (pre @ asset # post))"
    and "getProp asset ''type'' = Normal ty" and "\<not> nullish ty"
    and "ty \<noteq> JStr ''single''" and "ty \<noteq> JStr ''collection''"
  shows "verifyIngestFile e rawFile \<noteq> Normal (Inr r)
       \<and> (getProp rawFile ''settings'' = Normal s \<and> getProp s ''dsn'' = Normal d
            \<and> assureUniformDSN e d = Normal (Inr d') \<and> verifyAssets e 0 pre = Normal (Inr pre')
            \<and> getProp asset ''useCase'' = Normal u \<longrightarrow>
          verifyIngestFile e rawFile =
            Normal (Inl (if nullish u then ''No useCase field found in asset nr:'' @ showNat (length pre)
                         else ''Unknown asset type in asset nr:'' @ showNat (length pre))))"
proof (intro conjI impI)
  show "verifyIngestFile e rawFile \<noteq> Normal (Inr r)"
  proof
    assume "verifyIngestFile e rawFile = Normal (Inr r)"
    then obtain es' where "verifyAssets e 0 (pre @ asset # post) = Normal (Inr es')"
      using verifyIngestFile_result_assets assms(1) by blast
    then have "ty = JStr ''single'' \<or> ty = JStr ''collection''"
      using verifyAssets_accepts_known_types [of e 0 "pre @ asset # post" es' asset ty] assms(2)
      by simp
    with assms(4,5) show False by simp
  qed
next
  assume h: "getProp rawFile ''settings'' = Normal s \<and> getProp s ''dsn'' = Normal d
            \<and> assureUniformDSN e d = Normal (Inr d') \<and> verifyAssets e 0 pre = Normal (Inr pre')
            \<and> getProp asset ''useCase'' = Normal u"
  let ?err = "if nullish u then ''No useCase field found in asset nr:'' @ showNat (length pre)
                         else ''Unknown asset type in asset nr:'' @ showNat (length pre)"
  have here: "verifyAssets e (length pre) (asset # post) = Normal (Inl ?err)"
    using verifyAsset_unknown_type [OF assms(2-5), of u e "length pre"] h by simp
  from h have "verifyAssets e 0 (pre @ asset # post) = Normal (Inl ?err)"
    by (simp add: verifyAssets_append here del: verifyAssets.simps)
  moreover obtain a as where "pre @ asset # post = a # as"
    by (cases pre) auto
  ultimately show "verifyIngestFile e rawFile = Normal (Inl ?err)"
    using verifyIngestFile_reaches_assets [of rawFile s d e d' a as ?err] h assms(1) by simp
qed

lemma validateSingle_example:
  "validateSingleAssetEntry exampleEnv (JObj [(''type'', JStr ''single''), (''useCase'', JStr ''icon''), (''single'', JObj [])]) 0 = Normal None"
  by (simp add: validateSingleAssetEntry_def exampleEnv_def)

theorem verifyIngestFile_unknown_type_witness:
  "getProp (JObj [(''settings'', JObj [(''dsn'', JStr ''localhost 5432, admin secret, assetsdb, disable'')]),
                  (''assets'', JArr [JObj [(''type'', JStr ''single''), (''useCase'', JStr ''icon''), (''single'', JObj [])],
                                     JObj [(''type'', JStr ''video''), (''useCase'', JStr ''icon'')]])])
      ''assets''
     = Normal (JArr ([JObj [(''type'', JStr ''single''), (''useCase'', JStr ''icon''), (''single'', JObj [])]]
                     @ JObj [(''type'', JStr ''video''), (''useCase'', JStr ''icon'')] # []))
   \<and> getProp (JObj [(''type'', JStr ''video''), (''useCase'', JStr ''icon'')]) ''type'' = Normal (JStr ''video'')
   \<and> \<not> nullish (JStr ''video'')
   \<and> verifyAssets exampleEnv 0 [JObj [(''type'', JStr ''single''), (''useCase'', JStr ''icon''), (''single'', JObj [])]]
       = Normal (Inr [JObj [(''type'', JStr ''single''), (''useCase'', JStr ''icon''), (''single'', JObj [])]])
   \<and> verifyIngestFile exampleEnv
        (JObj [(''settings'', JObj [(''dsn'', JStr ''localhost 5432, admin secret, assetsdb, disable'')]),
               (''assets'', JArr [JObj [(''type'', JStr ''single''), (''useCase'', JStr ''icon''), (''single'', JObj [])],
                                  JObj [(''type'', JStr ''video''), (''useCase'', JStr ''icon'')]])])
     = Normal (Inl ''Unknown asset type in asset nr:1'')"
  using verifyIngestFile_unknown_type
    [where rawFile = "JObj [(''settings'', JObj [(''dsn'', JStr ''localhost 5432, admin secret, assetsdb, disable'')]),
               (''assets'', JArr [JObj [(''type'', JStr ''single''), (''useCase'', JStr ''icon''), (''single'', JObj [])],
                                  JObj [(''type'', JStr ''video''), (''useCase'', JStr ''icon'')]])]"
       and pre = "[JObj [(''type'', JStr ''single''), (''useCase'', JStr ''icon''), (''single'', JObj [])]]"
       and asset = "JObj [(''type'', JStr ''video''), (''useCase'', JStr ''icon'')]" and post = "[]"
       and ty = "JStr ''video''" and e = exampleEnv
       and s = "JObj [(''dsn'', JStr ''localhost 5432, admin secret, assetsdb, disable'')]"
       and d = "JStr ''localhost 5432, admin secret, assetsdb, disable''" and d' = exampleDSN
       and pre' = "[JObj [(''type'', JStr ''single''), (''useCase'', JStr ''icon''), (''single'', JObj [])]]"
       and u = "JStr ''icon''"]
  by (simp add: nullish_def assureUniformDSN_def verifyAsset_def validateSingle_example showNat.simps)
     (simp add: exampleEnv_def)

theorem verifyIngestFile_unknown_type_counterexample:
  "getProp (JObj [(''type'', JStr ''video'')]) ''type'' = Normal (JStr ''video'')
   \<and> verifyIngestFile exampleEnv
        (JObj [(''settings'', JObj [(''dsn'', JStr ''localhost 5432, admin secret, assetsdb, disable'')]),
               (''assets'', JArr [JObj [(''type'', JStr ''video'')]])])
     = Normal (Inl ''No useCase field found in asset nr:0'')"
  by (simp add: verifyIngestFile_def verifyAsset_def assureUniformDSN_def exampleEnv_def showNat.simps)

section \<open>The entries of a collection\<close>

lemma validateEntries_append:
  "validateEntries e n i pre = Normal (pre', None) \<Longrightarrow>
   validateEntries e n i (pre @ xs) =
     (case validateEntries e n (i + length pre) xs of
        TypeError \<Rightarrow> TypeError
      | Unmodelled \<Rightarrow> Unmodelled
      | Normal (xs', r) \<Rightarrow> Normal (pre' @ xs', r))"
proof (induction pre arbitrary: i pre')
  case Nil
  then show ?case by (auto split: completion.splits)
next
  case (Cons a pre)
  from Cons.prems obtain a' ps where a': "validateEntry e n i a = Normal (a', None)"
    and ps: "validateEntries e n (Suc i) pre = Normal (ps, None)" and pre': "pre' = a' # ps"
    by (auto split: completion.splits option.splits)
  show ?case
    using Cons.IH [OF ps] a' pre'
    by (auto split: completion.splits)
qed

lemma validateEntry_passes_any_index:
  "validateEntry e n i s = Normal (s', None) \<Longrightarrow> validateEntry e n' i' s = Normal (s', None)"
  by (auto simp: validateEntry_def split: option.splits completion.splits sum.splits)

lemma validateEntries_pass_any_index:
  "validateEntries e n i es = Normal (es', None) \<Longrightarrow> validateEntries e n' i' es = Normal (es', None)"
proof (induction es arbitrary: i i' es')
  case Nil
  then show ?case by simp
next
  case (Cons a es)
  from Cons.prems obtain a' ps where a': "validateEntry e n i a = Normal (a', None)"
    and ps: "validateEntries e n (Suc i) es = Normal (ps, None)" and es': "es' = a' # ps"
    by (auto split: completion.splits option.splits)
  from a' have "validateEntry e n' i' a = Normal (a', None)"
    by (rule validateEntry_passes_any_index)
  moreover from ps have "validateEntries e n' (Suc i') es = Normal (ps, None)"
    by (rule Cons.IH)
  ultimately show ?case by (simp add: es')
qed

lemma validateEntry_transform_error:
  "conformsToType e source INGEST_FILE_COLLECTION_ENTRY_TYPEDECL = None \<Longrightarrow>
   getProp source ''transform'' = Normal t \<Longrightarrow> assureUniformTransform e t = Inl err \<Longrightarrow>
   validateEntry e n i source = Normal (source, Some err)"
  by (simp add: validateEntry_def)

text \<open>
  C6. \<^verbatim>\<open>validateCollectionAssetEntry\<close> is to stop at the first entry that fails and to name,
  in every error of an entry, the index of the asset and the index of the entry. It does
  stop there: the entries before are normalized, the failing entry and the entries after
  it are as they were, whatever they are. But when the entry fails because its transform
  does not normalize, the error returned is the error of \<^verbatim>\<open>assureUniformTransform\<close> as it
  is, the same for every index of the asset and of the entry; the branch of the type
  error, two lines above it in the source, puts both indices in front.
\<close>

theorem validateCollectionAssetEntry_transform_error:
  assumes "conformsToType e asset INGEST_FILE_COLLECTION_ASSET_TYPEDECL = None"
    and "getProp asset ''collection'' = Normal coll"
    and "conformsToType e coll INGEST_FILE_COLLECTION_FIELD_TYPEDECL = None"
    and "getProp coll ''entries'' = Normal (JArr (pre @ source # rest))"
    and "validateEntries e entryNum 0 pre = Normal (pre', None)"
    and "conformsToType e source INGEST_FILE_COLLECTION_ENTRY_TYPEDECL = None"
    and "getProp source ''transform'' = Normal t"
    and "assureUniformTransform e t = Inl err"
  shows "\<forall>n. \<exists>asset' coll'.
           validateCollectionAssetEntry e asset n = Normal (asset', Some err)
           \<and> getProp asset' ''collection'' = Normal coll'
           \<and> getProp coll' ''entries'' = Normal (JArr (pre' @ source # rest))"
proof
  fix n
  obtain cs where cs: "coll = JObj cs"
    using getProp_Normal_not_nullish [OF assms(4)] by (auto simp: nullish_def)
  then obtain as where as: "asset = JObj as"
    using getProp_Normal_not_nullish [OF assms(2)] by (auto simp: nullish_def)
  have pre: "validateEntries e n 0 pre = Normal (pre', None)"
    using assms(5) by (rule validateEntries_pass_any_index)
  have "validateEntries e n (length pre) (source # rest) = Normal (source # rest, Some err)"
    using validateEntry_transform_error [OF assms(6-8)] by simp
  then have "validateEntries e n 0 (pre @ source # rest) = Normal (pre' @ source # rest, Some err)"
    using validateEntries_append [OF pre, of "source # rest"] by (simp del: validateEntries.simps)
  then show "\<exists>asset' coll'.
           validateCollectionAssetEntry e asset n = Normal (asset', Some err)
           \<and> getProp asset' ''collection'' = Normal coll'
           \<and> getProp coll' ''entries'' = Normal (JArr (pre' @ source # rest))"
    using assms(1-4) cs as
    by (simp add: validateCollectionAssetEntry_def update_conv' del: validateEntries.simps)
qed

theorem validateCollectionAssetEntry_transform_error_witness:
  "conformsToType exampleEnv
      (exampleCollection [JObj [(''transform'', JStr ''rotate 90'')], JObj [(''transform'', JStr ''sideways'')],
                          JObj [(''transform'', JStr ''rotate 90'')]])
      INGEST_FILE_COLLECTION_ASSET_TYPEDECL = None
   \<and> validateEntries exampleEnv 3 0 [JObj [(''transform'', JStr ''rotate 90'')]]
       = Normal ([JObj [(''transform'', JObj [(''rotate'', JNum 90)])]], None)
   \<and> getProp (JObj [(''transform'', JStr ''sideways'')]) ''transform'' = Normal (JStr ''sideways'')
   \<and> assureUniformTransform exampleEnv (JStr ''sideways'') = Inl ''Transform string is not in compact notation''
   \<and> validateCollectionAssetEntry exampleEnv
        (exampleCollection [JObj [(''transform'', JStr ''rotate 90'')], JObj [(''transform'', JStr ''sideways'')],
                            JObj [(''transform'', JStr ''rotate 90'')]]) 3
       = Normal (exampleCollection [JObj [(''transform'', JObj [(''rotate'', JNum 90)])],
                                    JObj [(''transform'', JStr ''sideways'')],
                                    JObj [(''transform'', JStr ''rotate 90'')]],
                 Some ''Transform string is not in compact notation'')
   \<and> \<not> sublist (showNat 3) ''Transform string is not in compact notation''
   \<and> \<not> sublist (showNat 1) ''Transform string is not in compact notation''"
  using validateCollectionAssetEntry_transform_error
    [where e = exampleEnv
       and asset = "exampleCollection [JObj [(''transform'', JStr ''rotate 90'')], JObj [(''transform'', JStr ''sideways'')],
                          JObj [(''transform'', JStr ''rotate 90'')]]"
       and coll = "JObj [(''entries'', JArr [JObj [(''transform'', JStr ''rotate 90'')], JObj [(''transform'', JStr ''sideways'')],
                          JObj [(''transform'', JStr ''rotate 90'')]])]"
       and pre = "[JObj [(''transform'', JStr ''rotate 90'')]]"
       and source = "JObj [(''transform'', JStr ''sideways'')]"
       and rest = "[JObj [(''transform'', JStr ''rotate 90'')]]"
       and entryNum = 3
       and pre' = "[JObj [(''transform'', JObj [(''rotate'', JNum 90)])]]"
       and t = "JStr ''sideways''" and err = "''Transform string is not in compact notation''"]
  by (simp add: exampleCollection_def validateCollectionAssetEntry_def validateEntry_def
        assureUniformTransform_def exampleEnv_def showNat.simps sublist_Cons_right)

section \<open>Sub-files\<close>

lemma subFilesLoop_append:
  "subFilesLoop e pre acc = (l, Inr acc') \<Longrightarrow>
   subFilesLoop e (pre @ xs) acc = (case subFilesLoop e xs acc' of (l', r) \<Rightarrow> (l @ l', r))"
proof (induction pre arbitrary: acc)
  case Nil
  then show ?case by (auto split: prod.splits)
next
  case (Cons d pre)
  from Cons.prems show ?case
    by (auto simp: Cons.IH split: option.splits sum.splits prod.splits list.splits)
qed

text \<open>
  C8, as the code has it. When the range check passes, the declarations before \<open>d\<close> are
  verified, and the content of \<open>d\<close> cannot be retrieved (the file is missing or does not
  parse), the error \<^verbatim>\<open>handleSubFiles\<close> returns is the error of \<^verbatim>\<open>readIngestFile\<close> as it is.
  The path of the declaration is put in front of it in the line that is logged, not in
  the error that is returned.
\<close>

theorem handleSubFiles_retrieval_error:
  assumes "checkIDRangesOfSubFiles e (pre @ d # post) \<in> {None, Some []}"
    and "subFilesLoop e pre [] = (l, Inr verified)"
    and "conformsToType e (subFileJSON d) INGEST_FILE_SETTINGS_TYPEDECL = None"
    and "readIngestFile e (path d) = Inl error"
  shows "handleSubFiles e (Some (pre @ d # post)) =
           (l @ [''[if_cmd] Failed to read sub-file: '' @ path d @ [CHR 0x0A, CHR 0x09] @ error], Inl error)"
proof -
  have "subFilesLoop e (d # post) verified =
          ([''[if_cmd] Failed to read sub-file: '' @ path d @ [CHR 0x0A, CHR 0x09] @ error], Inl error)"
    using assms(3,4) by simp
  then have loop: "subFilesLoop e (pre @ d # post) [] =
          (l @ [''[if_cmd] Failed to read sub-file: '' @ path d @ [CHR 0x0A, CHR 0x09] @ error], Inl error)"
    using subFilesLoop_append [OF assms(2), of "d # post"] by (simp del: subFilesLoop.simps)
  obtain x xs where xs: "pre @ d # post = x # xs"
    by (cases pre) auto
  from assms(1) loop show ?thesis
    unfolding handleSubFiles_def xs by (auto simp del: subFilesLoop.simps)
qed

theorem handleSubFiles_retrieval_error_witness:
  "checkIDRangesOfSubFiles exampleEnv ([] @ \<lparr>path = ''sub.json'', rangeStart = 1, rangeEnd = 10\<rparr> # []) \<in> {None, Some []}
   \<and> subFilesLoop exampleEnv [] [] = ([], Inr [])
   \<and> conformsToType exampleEnv (subFileJSON \<lparr>path = ''sub.json'', rangeStart = 1, rangeEnd = 10\<rparr>)
        INGEST_FILE_SETTINGS_TYPEDECL = None
   \<and> readIngestFile exampleEnv ''sub.json'' = Inl ''Failed to parse IngestFile: SyntaxError: JSON Parse error: Expected }''
   \<and> handleSubFiles exampleEnv (Some [\<lparr>path = ''sub.json'', rangeStart = 1, rangeEnd = 10\<rparr>]) =
        ([''[if_cmd] Failed to read sub-file: sub.json'' @ [CHR 0x0A, CHR 0x09]
          @ ''Failed to parse IngestFile: SyntaxError: JSON Parse error: Expected }''],
         Inl ''Failed to parse IngestFile: SyntaxError: JSON Parse error: Expected }'')"
  using handleSubFiles_retrieval_error
    [where e = exampleEnv and pre = "[]" and d = "\<lparr>path = ''sub.json'', rangeStart = 1, rangeEnd = 10\<rparr>"
       and post = "[]" and l = "[]" and verified = "[]"
       and error = "''Failed to parse IngestFile: SyntaxError: JSON Parse error: Expected }''"]
  by (simp add: exampleEnv_def checkIDRangesOfSubFiles_spec_def subFileJSON_def readIngestFile_def)

theorem handleSubFiles_retrieval_error_counterexample:
  "snd (handleSubFiles exampleEnv (Some [\<lparr>path = ''sub.json'', rangeStart = 1, rangeEnd = 10\<rparr>])) =
     Inl ''Failed to parse IngestFile: SyntaxError: JSON Parse error: Expected }''
   \<and> \<not> prefix ''sub.json'' ''Failed to parse IngestFile: SyntaxError: JSON Parse error: Expected }''
   \<and> snd (handleSubFiles exampleEnv (Some [\<lparr>path = ''gone.json'', rangeStart = 1, rangeEnd = 10\<rparr>])) =
     Inl (''File: '' @ [CHR 0x22] @ ''gone.json'' @ [CHR 0x22] @ '' does not exist. WD: /app'')
   \<and> \<not> prefix ''gone.json'' (''File: '' @ [CHR 0x22] @ ''gone.json'' @ [CHR 0x22] @ '' does not exist. WD: /app'')"
  by (simp add: handleSubFiles_def exampleEnv_def checkIDRangesOfSubFiles_spec_def subFileJSON_def
        readIngestFile_def)

section \<open>The levels that are generated\<close>

lemma lodLoop_levels:
  "map detailLevel lods = [0..<lvl] \<Longrightarrow> lodLoop e thr ty fuel lods cur lvl = Some (Inr out) \<Longrightarrow>
   (\<exists>extra. out = lods @ extra) \<and> map detailLevel out = [0..<length out]"
proof (induction fuel arbitrary: lods cur lvl)
  case 0
  from "0.prems"(2) have "out = lods"
    by (subst (asm) lodLoop.simps) (auto split: if_splits)
  moreover from "0.prems"(1) have "length lods = lvl"
    by (metis length_map length_upt minus_nat.diff_0)
  ultimately show ?case using "0.prems"(1) by simp
next
  case (Suc fuel)
  from Suc.prems(1) have len: "length lods = lvl"
    by (metis length_map length_upt minus_nat.diff_0)
  show ?case
  proof (cases "real (blob_size cur) / 1000 > thr")
    case False
    with Suc.prems(2) have "out = lods"
      by (subst (asm) lodLoop.simps) simp
    with len Suc.prems(1) show ?thesis by simp
  next
    case True
    with Suc.prems(2) obtain r where
      rec: "lodLoop e thr ty fuel (lods @ [\<lparr>detailLevel = lvl, blob = r, type = ty\<rparr>]) r (lvl + 1) = Some (Inr out)"
      by (subst (asm) lodLoop.simps) (auto split: sum.splits)
    have "map detailLevel (lods @ [\<lparr>detailLevel = lvl, blob = r, type = ty\<rparr>]) = [0..<lvl + 1]"
      using Suc.prems(1) by simp
    from Suc.IH [OF this rec] show ?thesis by auto
  qed
qed

text \<open>
  C10, as the code has it. When \<^verbatim>\<open>generateLODs\<close> succeeds, the list it returns is not empty,
  its first element has detail level 0 and holds the blob that was given, as it was given,
  and the detail levels of the list are 0, 1, ..., n in this order. The type of the first
  element is the type the function resolved: the override when one is given, and the
  conforming MIME type of the type of the blob otherwise; it need not be the type of the
  blob. For a blob of size 0 the function returns an error and no list, whatever the fuel
  of the loop.
\<close>

theorem generateLODs_levels:
  "(generateLODs e fuel b sizeThreshold typeOverwrite = Some (Inr lods) \<longrightarrow>
      lods \<noteq> [] \<and> detailLevel (hd lods) = 0 \<and> blob (hd lods) = b
      \<and> (case typeOverwrite of Some (c # cs) \<Rightarrow> Inr (c # cs)
          | _ \<Rightarrow> findConformingMIMEType e (blob_type b)) = Inr (type (hd lods))
      \<and> map detailLevel lods = [0..<length lods])
   \<and> (blob_size b = 0 \<longrightarrow> (\<exists>err. generateLODs e fuel b sizeThreshold typeOverwrite = Some (Inl err)))"
proof (intro conjI impI)
  assume ok: "generateLODs e fuel b sizeThreshold typeOverwrite = Some (Inr lods)"
  define resolved where "resolved = (case typeOverwrite of Some (c # cs) \<Rightarrow> Inr (c # cs)
          | _ \<Rightarrow> findConformingMIMEType e (blob_type b))"
  from ok obtain ty where ty: "resolved = Inr ty"
    unfolding generateLODs_def resolved_def by (auto split: sum.splits)
  let ?first = "\<lparr>detailLevel = 0, blob = b, type = ty\<rparr>"
  have first: "map detailLevel [?first] = [0..<1]" by simp
  from ok ty have "lods = [?first] \<or> lodLoop e sizeThreshold ty fuel [?first] b 1 = Some (Inr lods)"
    unfolding generateLODs_def resolved_def [symmetric] by (auto split: if_splits)
  then have extra: "(\<exists>extra. lods = ?first # extra) \<and> map detailLevel lods = [0..<length lods]"
    using lodLoop_levels [OF first, of e sizeThreshold ty fuel b lods] by auto
  from extra show "lods \<noteq> []" "detailLevel (hd lods) = 0" "blob (hd lods) = b" by auto
  from extra ty show "(case typeOverwrite of Some (c # cs) \<Rightarrow> Inr (c # cs)
          | _ \<Rightarrow> findConformingMIMEType e (blob_type b)) = Inr (type (hd lods))"
    by (auto simp: resolved_def)
  from extra show "map detailLevel lods = [0..<length lods]"
    by simp
next
  assume "blob_size b = 0"
  then show "\<exists>err. generateLODs e fuel b sizeThreshold typeOverwrite = Some (Inl err)"
    by (auto simp: generateLODs_def split: sum.splits)
qed

theorem generateLODs_levels_witness:
  "generateLODs exampleLodEnv 5 \<lparr>bytes = [1, 2, 3, 4, 5, 6, 7, 8], blob_type = ''image/jpg''\<rparr> (3 / 1000) None
     = Some (Inr [\<lparr>detailLevel = 0, blob = \<lparr>bytes = [1, 2, 3, 4, 5, 6, 7, 8], blob_type = ''image/jpg''\<rparr>,
                   type = ''image/jpeg''\<rparr>,
                  \<lparr>detailLevel = 1, blob = \<lparr>bytes = [1, 2], blob_type = ''image/jpg''\<rparr>,
                   type = ''image/jpeg''\<rparr>])
   \<and> blob_size \<lparr>bytes = [], blob_type = ''image/png''\<rparr> = 0
   \<and> generateLODs exampleLodEnv 0 \<lparr>bytes = [], blob_type = ''image/png''\<rparr> 1 None
     = Some (Inl ''This blob is empty.'')"
  using generateLODs_levels
    [where e = exampleLodEnv and fuel = 5
       and b = "\<lparr>bytes = [1, 2, 3, 4, 5, 6, 7, 8], blob_type = ''image/jpg''\<rparr>"
       and sizeThreshold = "3 / 1000" and typeOverwrite = None
       and lods = "[\<lparr>detailLevel = 0, blob = \<lparr>bytes = [1, 2, 3, 4, 5, 6, 7, 8], blob_type = ''image/jpg''\<rparr>,
                   type = ''image/jpeg''\<rparr>,
                  \<lparr>detailLevel = 1, blob = \<lparr>bytes = [1, 2], blob_type = ''image/jpg''\<rparr>,
                   type = ''image/jpeg''\<rparr>]"]
    generateLODs_levels
    [where e = exampleLodEnv and fuel = 0 and b = "\<lparr>bytes = [], blob_type = ''image/png''\<rparr>"
       and sizeThreshold = 1 and typeOverwrite = None]
  by (simp add: generateLODs_def exampleLodEnv_def blob_size_def lodLoop.simps downscaleImage_def)

theorem generateLODs_type_counterexample:
  "generateLODs exampleLodEnv 0 \<lparr>bytes = [1, 2, 3], blob_type = ''image/jpeg''\<rparr> 1 (Some ''image/png'')
     = Some (Inr [\<lparr>detailLevel = 0, blob = \<lparr>bytes = [1, 2, 3], blob_type = ''image/jpeg''\<rparr>,
                   type = ''image/png''\<rparr>])
   \<and> type \<lparr>detailLevel = 0, blob = \<lparr>bytes = [1, 2, 3], blob_type = ''image/jpeg''\<rparr>, type = ''image/png''\<rparr>
       \<noteq> blob_type \<lparr>bytes = [1, 2, 3], blob_type = ''image/jpeg''\<rparr>"
  by (simp add: generateLODs_def exampleLodEnv_def blob_size_def)

section \<open>The identifiers of a sub-manifest\<close>

lemma verifySubFileIDAssignments_spec_error:
  "\<exists>i\<in>set ids. i < rangeStart d \<or> rangeEnd d < i \<Longrightarrow>
   \<exists>i\<in>set ids. \<exists>bound.
      (i < rangeStart d \<and> bound = rangeStart d \<or> rangeEnd d < i \<and> bound = rangeEnd d)
      \<and> verifySubFileIDAssignments_spec d ids = Some (outOfRangeError i bound)"
  by (induction ids) auto

lemma verifySubFileIDAssignments_spec_ok:
  "\<forall>i\<in>set ids. rangeStart d \<le> i \<and> i \<le> rangeEnd d \<Longrightarrow> verifySubFileIDAssignments_spec d ids = None"
  by (induction ids) auto

lemma outOfRangeError_names:
  "sublist (showInt i) (outOfRangeError i bound) \<and> sublist (showInt bound) (outOfRangeError i bound)"
  unfolding outOfRangeError_def
  by (metis sublist_appendI suffix_imp_sublist suffixI append.assoc)

lemma outOfRangeError_truthy: "\<exists>c cs. outOfRangeError i bound = c # cs"
  by (simp add: outOfRangeError_def)

lemma subFilesLoop_id_error:
  assumes "conformsToType e (subFileJSON d) INGEST_FILE_SETTINGS_TYPEDECL = None"
    and "readIngestFile e (path d) = Inr doc"
    and "verifyIngestFileAssets e doc = (doc', verr)" and "verr \<in> {None, Some []}"
    and "verifySubFileIDAssignments e d doc' = Some (c # cs)"
  shows "snd (subFilesLoop e (d # rest) acc) = Inl (c # cs)"
  using assms by auto

lemma subFilesLoop_id_ok:
  assumes "conformsToType e (subFileJSON d) INGEST_FILE_SETTINGS_TYPEDECL = None"
    and "readIngestFile e (path d) = Inr doc"
    and "verifyIngestFileAssets e doc = (doc', verr)" and "verr \<in> {None, Some []}"
    and "verifySubFileIDAssignments e d doc' = None"
  shows "subFilesLoop e (d # rest) acc = subFilesLoop e rest (acc @ [doc'])"
  using assms by auto

text \<open>
  C4. Let a declaration pass the type check, let its sub-manifest be retrieved and its
  assets verified, and let the identifiers found in it be checked as the specification
  says. If some identifier lies outside the inclusive range of the declaration, the check
  fails with an error that names an identifier outside the range and the bound it
  violates, and \<^verbatim>\<open>handleSubFiles\<close> returns this error for the sub-manifest. If every
  identifier lies in the range, the check succeeds and the loop goes on with the
  sub-manifest among the verified ones.
\<close>

theorem verifySubFileIDAssignments_range:
  assumes "conformsToType e (subFileJSON d) INGEST_FILE_SETTINGS_TYPEDECL = None"
    and "readIngestFile e (path d) = Inr doc"
    and "verifyIngestFileAssets e doc = (doc', verr)" and "verr \<in> {None, Some []}"
    and "verifySubFileIDAssignments e d doc' = verifySubFileIDAssignments_spec d ids"
  shows "((\<exists>i\<in>set ids. i < rangeStart d \<or> rangeEnd d < i) \<longrightarrow>
            (\<exists>i\<in>set ids. \<exists>bound.
               (i < rangeStart d \<and> bound = rangeStart d \<or> rangeEnd d < i \<and> bound = rangeEnd d)
               \<and> verifySubFileIDAssignments_spec d ids = Some (outOfRangeError i bound)
               \<and> sublist (showInt i) (outOfRangeError i bound)
               \<and> sublist (showInt bound) (outOfRangeError i bound)
               \<and> snd (subFilesLoop e (d # rest) acc) = Inl (outOfRangeError i bound)))
       \<and> ((\<forall>i\<in>set ids. rangeStart d \<le> i \<and> i \<le> rangeEnd d) \<longrightarrow>
            verifySubFileIDAssignments_spec d ids = None
            \<and> subFilesLoop e (d # rest) acc = subFilesLoop e rest (acc @ [doc']))"
proof (intro conjI impI)
  assume "\<exists>i\<in>set ids. i < rangeStart d \<or> rangeEnd d < i"
  then obtain i bound where i: "i \<in> set ids"
    "i < rangeStart d \<and> bound = rangeStart d \<or> rangeEnd d < i \<and> bound = rangeEnd d"
    "verifySubFileIDAssignments_spec d ids = Some (outOfRangeError i bound)"
    using verifySubFileIDAssignments_spec_error by blast
  obtain c cs where c: "outOfRangeError i bound = c # cs"
    using outOfRangeError_truthy by blast
  have "snd (subFilesLoop e (d # rest) acc) = Inl (outOfRangeError i bound)"
    using subFilesLoop_id_error [OF assms(1-4), of c cs rest acc] assms(5) i(3) c by simp
  with i outOfRangeError_names [of i bound] show "\<exists>i\<in>set ids. \<exists>bound.
               (i < rangeStart d \<and> bound = rangeStart d \<or> rangeEnd d < i \<and> bound = rangeEnd d)
               \<and> verifySubFileIDAssignments_spec d ids = Some (outOfRangeError i bound)
               \<and> sublist (showInt i) (outOfRangeError i bound)
               \<and> sublist (showInt bound) (outOfRangeError i bound)
               \<and> snd (subFilesLoop e (d # rest) acc) = Inl (outOfRangeError i bound)"
    by blast
next
  assume ok: "\<forall>i\<in>set ids. rangeStart d \<le> i \<and> i \<le> rangeEnd d"
  then show "verifySubFileIDAssignments_spec d ids = None"
    by (rule verifySubFileIDAssignments_spec_ok)
  with assms(5) have "verifySubFileIDAssignments e d doc' = None" by simp
  then show "subFilesLoop e (d # rest) acc = subFilesLoop e rest (acc @ [doc'])"
    using subFilesLoop_id_ok [OF assms(1-4)] by simp
qed

theorem verifySubFileIDAssignments_range_witness:
  "conformsToType exampleSubEnv (subFileJSON \<lparr>path = ''sub.json'', rangeStart = 1, rangeEnd = 10\<rparr>)
      INGEST_FILE_SETTINGS_TYPEDECL = None
   \<and> readIngestFile exampleSubEnv ''sub.json'' = Inr exampleSubManifest
   \<and> verifyIngestFileAssets exampleSubEnv exampleSubManifest = (exampleSubManifest, None)
   \<and> assetIds exampleSubManifest = [3, 11]
   \<and> verifySubFileIDAssignments_spec \<lparr>path = ''sub.json'', rangeStart = 1, rangeEnd = 10\<rparr> [3, 11]
       = Some ''Asset id 11 is outside the declared id range, bound 10''
   \<and> snd (handleSubFiles exampleSubEnv (Some [\<lparr>path = ''sub.json'', rangeStart = 1, rangeEnd = 10\<rparr>]))
       = Inl ''Asset id 11 is outside the declared id range, bound 10''
   \<and> verifySubFileIDAssignments_spec \<lparr>path = ''sub.json'', rangeStart = 1, rangeEnd = 11\<rparr> [3, 11] = None
   \<and> handleSubFiles exampleSubEnv (Some [\<lparr>path = ''sub.json'', rangeStart = 1, rangeEnd = 11\<rparr>])
       = ([], Inr [exampleSubManifest])"
proof -
  have facts: "conformsToType exampleSubEnv (subFileJSON \<lparr>path = ''sub.json'', rangeStart = 1, rangeEnd = 10\<rparr>)
      INGEST_FILE_SETTINGS_TYPEDECL = None
   \<and> readIngestFile exampleSubEnv ''sub.json'' = Inr exampleSubManifest
   \<and> verifyIngestFileAssets exampleSubEnv exampleSubManifest = (exampleSubManifest, None)
   \<and> assetIds exampleSubManifest = [3, 11]
   \<and> verifySubFileIDAssignments_spec \<lparr>path = ''sub.json'', rangeStart = 1, rangeEnd = 10\<rparr> [3, 11]
       = Some ''Asset id 11 is outside the declared id range, bound 10''
   \<and> snd (handleSubFiles exampleSubEnv (Some [\<lparr>path = ''sub.json'', rangeStart = 1, rangeEnd = 10\<rparr>]))
       = Inl ''Asset id 11 is outside the declared id range, bound 10''
   \<and> verifySubFileIDAssignments_spec \<lparr>path = ''sub.json'', rangeStart = 1, rangeEnd = 11\<rparr> [3, 11] = None
   \<and> handleSubFiles exampleSubEnv (Some [\<lparr>path = ''sub.json'', rangeStart = 1, rangeEnd = 11\<rparr>])
       = ([], Inr [exampleSubManifest])"
    by (simp add: exampleSubEnv_def exampleEnv_def subFileJSON_def readIngestFile_def assetIds_def
        exampleSubManifest_def outOfRangeError_def showInt_def showNat.simps handleSubFiles_def
        checkIDRangesOfSubFiles_spec_def)
  have h1: "conformsToType exampleSubEnv (subFileJSON \<lparr>path = ''sub.json'', rangeStart = 1, rangeEnd = 10\<rparr>)
      INGEST_FILE_SETTINGS_TYPEDECL = None"
    and h2: "readIngestFile exampleSubEnv (path \<lparr>path = ''sub.json'', rangeStart = 1, rangeEnd = 10\<rparr>) = Inr exampleSubManifest"
    and h3: "verifyIngestFileAssets exampleSubEnv exampleSubManifest = (exampleSubManifest, None)"
    and h4: "None \<in> {None, Some ([]::string)}"
    and h5: "verifySubFileIDAssignments exampleSubEnv \<lparr>path = ''sub.json'', rangeStart = 1, rangeEnd = 10\<rparr> exampleSubManifest
           = verifySubFileIDAssignments_spec \<lparr>path = ''sub.json'', rangeStart = 1, rangeEnd = 10\<rparr> [3, 11]"
    using facts by (simp_all add: exampleSubEnv_def)
  show ?thesis
    using facts verifySubFileIDAssignments_range [OF h1 h2 h3 h4 h5, of "[]" "[]"]
    by blast
qed

section \<open>The ranges of the sub-files\<close>

lemma sorted_wrt_sym_mset:
  assumes sym: "\<And>x y. R x y \<Longrightarrow> R y x"
  shows "sorted_wrt R xs \<longleftrightarrow> (\<forall>x y. x \<in># mset xs \<and> y \<in># mset xs - {#x#} \<longrightarrow> R x y)"
proof (induction xs)
  case Nil
  then show ?case by simp
next
  case (Cons a xs)
  show ?case
  proof
    assume l: "sorted_wrt R (a # xs)"
    show "\<forall>x y. x \<in># mset (a # xs) \<and> y \<in># mset (a # xs) - {#x#} \<longrightarrow> R x y"
    proof (intro allI impI)
      fix x y
      assume h: "x \<in># mset (a # xs) \<and> y \<in># mset (a # xs) - {#x#}"
      show "R x y"
      proof (cases "x = a")
        case True
        with h have "y \<in> set xs" by simp
        with l True show ?thesis by simp
      next
        case False
        with h have x: "x \<in># mset xs" by simp
        then have "mset (a # xs) - {#x#} = add_mset a (mset xs - {#x#})"
          by simp
        with h have "y = a \<or> y \<in># mset xs - {#x#}" by simp
        then show ?thesis
        proof
          assume "y = a"
          with l x have "R a x" by simp
          with \<open>y = a\<close> show ?thesis by (simp add: sym)
        next
          assume "y \<in># mset xs - {#x#}"
          with l x Cons.IH show ?thesis by simp
        qed
      qed
    qed
  next
    assume r: "\<forall>x y. x \<in># mset (a # xs) \<and> y \<in># mset (a # xs) - {#x#} \<longrightarrow> R x y"
    have "\<forall>y\<in>set xs. R a y"
      using r by simp
    moreover have "sorted_wrt R xs"
    proof -
      have "\<forall>x y. x \<in># mset xs \<and> y \<in># mset xs - {#x#} \<longrightarrow> R x y"
      proof (intro allI impI)
        fix x y
        assume h: "x \<in># mset xs \<and> y \<in># mset xs - {#x#}"
        then have "mset (a # xs) - {#x#} = add_mset a (mset xs - {#x#})"
          by simp
        with h have "y \<in># mset (a # xs) - {#x#}" by simp
        with h r show "R x y" by simp
      qed
      with Cons.IH show ?thesis by simp
    qed
    ultimately show "sorted_wrt R (a # xs)" by simp
  qed
qed

lemma not_overlap_sym: "\<not> overlap a b \<Longrightarrow> \<not> overlap b a"
  by (auto simp: overlap_def)

lemma pairwiseDisjoint_mset:
  assumes "mset ds' = mset ds"
  shows "pairwiseDisjoint ds' = pairwiseDisjoint ds"
  unfolding pairwiseDisjoint_def
  by (simp add: sorted_wrt_sym_mset [of "\<lambda>a b. \<not> overlap a b", OF not_overlap_sym] assms)


lemma scanAdjacent_Some:
  "scanAdjacent xs = Some err \<Longrightarrow>
   \<exists>pre a b post. xs = pre @ a # b # post \<and> rangeStart b \<le> rangeEnd a \<and> err = overlapError a b"
proof (induction xs rule: scanAdjacent.induct)
  case (1 current nxt rest)
  show ?case
  proof (cases "rangeStart nxt \<le> rangeEnd current")
    case True
    with "1.prems" have "current # nxt # rest = [] @ current # nxt # rest \<and> err = overlapError current nxt"
      by simp
    with True show ?thesis by blast
  next
    case False
    with "1.prems" have "scanAdjacent (nxt # rest) = Some err" by simp
    with False "1.IH" obtain pre a b post where
      "nxt # rest = pre @ a # b # post" "rangeStart b \<le> rangeEnd a" "err = overlapError a b"
      by auto
    then have "current # nxt # rest = (current # pre) @ a # b # post" by simp
    with \<open>rangeStart b \<le> rangeEnd a\<close> \<open>err = overlapError a b\<close> show ?thesis by blast
  qed
qed simp_all

lemma scanAdjacent_None_disjoint:
  "sorted (map rangeStart xs) \<Longrightarrow> scanAdjacent xs = None \<Longrightarrow> pairwiseDisjoint xs"
proof (induction xs rule: scanAdjacent.induct)
  case (1 current nxt rest)
  from "1.prems"(2) have lt: "rangeEnd current < rangeStart nxt"
    and rec: "scanAdjacent (nxt # rest) = None"
    by (auto split: if_splits)
  from "1.prems"(1) have "sorted (map rangeStart (nxt # rest))" by simp
  with "1.IH" lt rec have "pairwiseDisjoint (nxt # rest)" by simp
  moreover have "\<forall>y\<in>set (nxt # rest). \<not> overlap current y"
  proof
    fix y
    assume "y \<in> set (nxt # rest)"
    with "1.prems"(1) have "rangeStart nxt \<le> rangeStart y" by auto
    with lt show "\<not> overlap current y" by (simp add: overlap_def)
  qed
  ultimately show ?case by (simp add: pairwiseDisjoint_def)
qed (simp_all add: pairwiseDisjoint_def)

lemma disjoint_scanAdjacent_None:
  "sorted (map rangeStart xs) \<Longrightarrow> \<forall>d\<in>set xs. rangeStart d \<le> rangeEnd d \<Longrightarrow> pairwiseDisjoint xs \<Longrightarrow>
   scanAdjacent xs = None"
proof (induction xs rule: scanAdjacent.induct)
  case (1 current nxt rest)
  from "1.prems"(1) have "rangeStart current \<le> rangeStart nxt" by simp
  moreover from "1.prems"(2) have "rangeStart nxt \<le> rangeEnd nxt" by simp
  moreover from "1.prems"(3) have "\<not> overlap current nxt" by (simp add: pairwiseDisjoint_def)
  ultimately have lt: "\<not> rangeStart nxt \<le> rangeEnd current" by (simp add: overlap_def)
  from "1.prems" have "sorted (map rangeStart (nxt # rest))"
    "\<forall>d\<in>set (nxt # rest). rangeStart d \<le> rangeEnd d" "pairwiseDisjoint (nxt # rest)"
    by (simp_all add: pairwiseDisjoint_def)
  with "1.IH" lt have "scanAdjacent (nxt # rest) = None" by simp
  with lt show ?case by simp
qed simp_all

lemma find_malformed:
  "\<exists>d\<in>set ds. P d \<Longrightarrow> \<exists>d\<in>set ds. P d \<and> find P ds = Some d"
  by (induction ds) auto

lemma malformedRangeError_names: "sublist (path d) (malformedRangeError d)"
  unfolding malformedRangeError_def by (metis sublist_appendI append.assoc)

lemma overlapError_names: "sublist (path a) (overlapError a b) \<and> sublist (path b) (overlapError a b)"
  unfolding overlapError_def by (metis sublist_appendI append.assoc)

lemma checkIDRangesOfSubFiles_spec_malformed:
  assumes "\<exists>d\<in>set ds. rangeEnd d < rangeStart d"
  shows "\<exists>d\<in>set ds. rangeEnd d < rangeStart d \<and> checkIDRangesOfSubFiles_spec ds = Some (malformedRangeError d)"
proof -
  from find_malformed [OF assms] obtain d where "d \<in> set ds" "rangeEnd d < rangeStart d"
    "find (\<lambda>d. rangeEnd d < rangeStart d) ds = Some d" by blast
  then show ?thesis by (auto simp: checkIDRangesOfSubFiles_spec_def)
qed

lemma checkIDRangesOfSubFiles_spec_wellformed:
  assumes "\<forall>d\<in>set ds. rangeStart d \<le> rangeEnd d"
  shows "checkIDRangesOfSubFiles_spec ds = scanAdjacent (sort_key rangeStart ds)"
proof -
  from assms have "find (\<lambda>d. rangeEnd d < rangeStart d) ds = None"
    by (auto simp: find_None_iff)
  then show ?thesis by (simp add: checkIDRangesOfSubFiles_spec_def)
qed

lemma checkIDRangesOfSubFiles_spec_overlap:
  assumes wf: "\<forall>d\<in>set ds. rangeStart d \<le> rangeEnd d" and "\<not> pairwiseDisjoint ds"
  shows "\<exists>a b. {#a, b#} \<subseteq># mset ds \<and> overlap a b
           \<and> checkIDRangesOfSubFiles_spec ds = Some (overlapError a b)"
proof -
  let ?xs = "sort_key rangeStart ds"
  have srt: "sorted (map rangeStart ?xs)" by simp
  have ms: "mset ?xs = mset ds" by simp
  have "scanAdjacent ?xs \<noteq> None"
  proof
    assume "scanAdjacent ?xs = None"
    with srt have "pairwiseDisjoint ?xs" by (rule scanAdjacent_None_disjoint)
    with ms have "pairwiseDisjoint ds" using pairwiseDisjoint_mset by blast
    with assms(2) show False by simp
  qed
  then obtain err where err: "scanAdjacent ?xs = Some err" by auto
  from scanAdjacent_Some [OF err] obtain pre a b post where
    xs: "?xs = pre @ a # b # post" and le: "rangeStart b \<le> rangeEnd a" and e: "err = overlapError a b"
    by blast
  from srt have "rangeStart a \<le> rangeStart b"
    unfolding xs by (simp add: sorted_append)
  moreover have "b \<in> set ds"
    using xs by (metis in_set_conv_decomp list.set_intros(1,2) set_append set_sort Un_iff)
  with wf have "rangeStart b \<le> rangeEnd b" by simp
  ultimately have ov: "overlap a b" using le by (simp add: overlap_def)
  have "{#a, b#} \<subseteq># mset ?xs"
    unfolding xs by simp
  with ms have "{#a, b#} \<subseteq># mset ds" by simp
  with ov err e wf show ?thesis
    using checkIDRangesOfSubFiles_spec_wellformed by auto
qed

lemma checkIDRangesOfSubFiles_spec_disjoint:
  assumes wf: "\<forall>d\<in>set ds. rangeStart d \<le> rangeEnd d" and pd: "pairwiseDisjoint ds"
    and ms: "mset ds' = mset ds"
  shows "checkIDRangesOfSubFiles_spec ds' = None"
proof -
  let ?xs = "sort_key rangeStart ds'"
  from ms have "set ds' = set ds" by (rule mset_eq_setD)
  with wf have wf': "\<forall>d\<in>set ds'. rangeStart d \<le> rangeEnd d" by simp
  have "mset ?xs = mset ds" using ms by simp
  with pd have "pairwiseDisjoint ?xs" using pairwiseDisjoint_mset by blast
  moreover have "sorted (map rangeStart ?xs)" by simp
  moreover from wf' have "\<forall>d\<in>set ?xs. rangeStart d \<le> rangeEnd d" by simp
  ultimately have "scanAdjacent ?xs = None" by (simp add: disjoint_scanAdjacent_None)
  with wf' show ?thesis by (simp add: checkIDRangesOfSubFiles_spec_wellformed)
qed

lemma checkIDRangesOfSubFiles_spec_truthy:
  assumes "checkIDRangesOfSubFiles_spec ds = Some err"
  shows "(\<exists>c cs. err = c # cs) \<and> (\<exists>x xs. ds = x # xs)"
proof -
  have "\<exists>c cs. err = c # cs"
  proof (cases "find (\<lambda>d. rangeEnd d < rangeStart d) ds")
    case None
    with assms have "scanAdjacent (sort_key rangeStart ds) = Some err"
      by (simp add: checkIDRangesOfSubFiles_spec_def)
    from scanAdjacent_Some [OF this] show ?thesis
      by (auto simp: overlapError_def)
  next
    case (Some d)
    with assms show ?thesis
      by (auto simp: checkIDRangesOfSubFiles_spec_def malformedRangeError_def)
  qed
  moreover from assms have "ds \<noteq> []"
    by (auto simp: checkIDRangesOfSubFiles_spec_def)
  ultimately show ?thesis by (cases ds) auto
qed

text \<open>
  C3. An absent and an empty list of declarations give \<^verbatim>\<open>handleSubFiles\<close> an empty result
  with no error. For the range check as the specification has it: if some declaration has
  its start after its end, the check fails with the error of such a declaration, which
  names it; if all are well-formed and two of them overlap, it fails with the error of two
  overlapping declarations, which names both; if all are well-formed and no two overlap,
  it succeeds on the list and on every reordering of it. Where \<^verbatim>\<open>handleSubFiles\<close> is given
  this check, it returns the error of the check.
\<close>

theorem checkIDRangesOfSubFiles_complete:
  "handleSubFiles e None = ([], Inr []) \<and> handleSubFiles e (Some []) = ([], Inr [])
   \<and> ((\<exists>d\<in>set ds. rangeEnd d < rangeStart d) \<longrightarrow>
        (\<exists>d\<in>set ds. rangeEnd d < rangeStart d
           \<and> checkIDRangesOfSubFiles_spec ds = Some (malformedRangeError d)
           \<and> sublist (path d) (malformedRangeError d)))
   \<and> ((\<forall>d\<in>set ds. rangeStart d \<le> rangeEnd d) \<and> \<not> pairwiseDisjoint ds \<longrightarrow>
        (\<exists>a b. {#a, b#} \<subseteq># mset ds \<and> overlap a b
           \<and> checkIDRangesOfSubFiles_spec ds = Some (overlapError a b)
           \<and> sublist (path a) (overlapError a b) \<and> sublist (path b) (overlapError a b)))
   \<and> ((\<forall>d\<in>set ds. rangeStart d \<le> rangeEnd d) \<and> pairwiseDisjoint ds \<longrightarrow>
        (\<forall>ds'. mset ds' = mset ds \<longrightarrow> checkIDRangesOfSubFiles_spec ds' = None))
   \<and> (checkIDRangesOfSubFiles e ds = checkIDRangesOfSubFiles_spec ds \<longrightarrow>
        (\<forall>err. checkIDRangesOfSubFiles_spec ds = Some err \<longrightarrow>
           handleSubFiles e (Some ds) = ([''[if_cmd] Range check failed: '' @ err], Inl err)))"
proof (intro conjI impI allI)
  show "handleSubFiles e None = ([], Inr [])" "handleSubFiles e (Some []) = ([], Inr [])"
    by (simp_all add: handleSubFiles_def)
next
  assume "\<exists>d\<in>set ds. rangeEnd d < rangeStart d"
  then show "\<exists>d\<in>set ds. rangeEnd d < rangeStart d
           \<and> checkIDRangesOfSubFiles_spec ds = Some (malformedRangeError d)
           \<and> sublist (path d) (malformedRangeError d)"
    using checkIDRangesOfSubFiles_spec_malformed malformedRangeError_names by blast
next
  assume "(\<forall>d\<in>set ds. rangeStart d \<le> rangeEnd d) \<and> \<not> pairwiseDisjoint ds"
  then show "\<exists>a b. {#a, b#} \<subseteq># mset ds \<and> overlap a b
           \<and> checkIDRangesOfSubFiles_spec ds = Some (overlapError a b)
           \<and> sublist (path a) (overlapError a b) \<and> sublist (path b) (overlapError a b)"
    using checkIDRangesOfSubFiles_spec_overlap [of ds] overlapError_names by blast
next
  fix ds'
  assume "(\<forall>d\<in>set ds. rangeStart d \<le> rangeEnd d) \<and> pairwiseDisjoint ds" and "mset ds' = mset ds"
  then show "checkIDRangesOfSubFiles_spec ds' = None"
    using checkIDRangesOfSubFiles_spec_disjoint by blast
next
  fix err
  assume same: "checkIDRangesOfSubFiles e ds = checkIDRangesOfSubFiles_spec ds"
    and err: "checkIDRangesOfSubFiles_spec ds = Some err"
  from checkIDRangesOfSubFiles_spec_truthy [OF err] obtain c cs x xs where
    "err = c # cs" "ds = x # xs" by blast
  with same err show "handleSubFiles e (Some ds) = ([''[if_cmd] Range check failed: '' @ err], Inl err)"
    by (simp add: handleSubFiles_def)
qed


theorem checkIDRangesOfSubFiles_complete_witness:
  "\<not> pairwiseDisjoint [\<lparr>path = ''a.json'', rangeStart = 1, rangeEnd = 10\<rparr>,
                         \<lparr>path = ''b.json'', rangeStart = 5, rangeEnd = 15\<rparr>]
   \<and> checkIDRangesOfSubFiles_spec [\<lparr>path = ''a.json'', rangeStart = 1, rangeEnd = 10\<rparr>,
                                    \<lparr>path = ''b.json'', rangeStart = 5, rangeEnd = 15\<rparr>]
       = Some ''The id ranges of sub-files a.json and b.json overlap''
   \<and> handleSubFiles exampleEnv (Some [\<lparr>path = ''a.json'', rangeStart = 1, rangeEnd = 10\<rparr>,
                                       \<lparr>path = ''b.json'', rangeStart = 5, rangeEnd = 15\<rparr>])
       = ([''[if_cmd] Range check failed: The id ranges of sub-files a.json and b.json overlap''],
          Inl ''The id ranges of sub-files a.json and b.json overlap'')
   \<and> checkIDRangesOfSubFiles_spec [\<lparr>path = ''a.json'', rangeStart = 1, rangeEnd = 10\<rparr>,
                                    \<lparr>path = ''m.json'', rangeStart = 10, rangeEnd = 1\<rparr>]
       = Some ''Sub-file m.json declares an id range that starts at 10 and ends at 1''
   \<and> pairwiseDisjoint [\<lparr>path = ''c.json'', rangeStart = 20, rangeEnd = 30\<rparr>,
                        \<lparr>path = ''a.json'', rangeStart = 1, rangeEnd = 10\<rparr>]
   \<and> checkIDRangesOfSubFiles_spec [\<lparr>path = ''c.json'', rangeStart = 20, rangeEnd = 30\<rparr>,
                                    \<lparr>path = ''a.json'', rangeStart = 1, rangeEnd = 10\<rparr>] = None
   \<and> checkIDRangesOfSubFiles_spec [\<lparr>path = ''a.json'', rangeStart = 1, rangeEnd = 10\<rparr>,
                                    \<lparr>path = ''c.json'', rangeStart = 20, rangeEnd = 30\<rparr>] = None"
proof -
  let ?A = "\<lparr>path = ''a.json'', rangeStart = 1, rangeEnd = 10\<rparr>"
  let ?B = "\<lparr>path = ''b.json'', rangeStart = 5, rangeEnd = 15\<rparr>"
  let ?C = "\<lparr>path = ''c.json'', rangeStart = 20, rangeEnd = 30\<rparr>"
  let ?M = "\<lparr>path = ''m.json'', rangeStart = 10, rangeEnd = 1\<rparr>"
  have ab: "\<not> pairwiseDisjoint [?A, ?B]"
    and ab': "checkIDRangesOfSubFiles_spec [?A, ?B] = Some ''The id ranges of sub-files a.json and b.json overlap''"
    and am: "checkIDRangesOfSubFiles_spec [?A, ?M]
               = Some ''Sub-file m.json declares an id range that starts at 10 and ends at 1''"
    and ca: "pairwiseDisjoint [?C, ?A]"
    by (simp_all add: pairwiseDisjoint_def overlap_def checkIDRangesOfSubFiles_spec_def overlapError_def
          malformedRangeError_def showInt_def showNat.simps)
  have wf: "\<forall>d\<in>set [?C, ?A]. rangeStart d \<le> rangeEnd d" by simp
  have same: "checkIDRangesOfSubFiles exampleEnv [?A, ?B] = checkIDRangesOfSubFiles_spec [?A, ?B]"
    by (simp add: exampleEnv_def)
  note disjoint = checkIDRangesOfSubFiles_complete [of exampleEnv "[?C, ?A]"]
  note overlapping = checkIDRangesOfSubFiles_complete [of exampleEnv "[?A, ?B]"]
  from disjoint wf ca have perm: "\<forall>ds'. mset ds' = mset [?C, ?A] \<longrightarrow> checkIDRangesOfSubFiles_spec ds' = None"
    by blast
  have "mset [?C, ?A] = mset [?C, ?A]" and "mset [?A, ?C] = mset [?C, ?A]"
    by (simp_all add: add_mset_commute)
  with perm have none: "checkIDRangesOfSubFiles_spec [?C, ?A] = None"
    "checkIDRangesOfSubFiles_spec [?A, ?C] = None"
    by blast+
  from overlapping same ab' have
    "handleSubFiles exampleEnv (Some [?A, ?B])
       = ([''[if_cmd] Range check failed: '' @ ''The id ranges of sub-files a.json and b.json overlap''],
          Inl ''The id ranges of sub-files a.json and b.json overlap'')"
    by blast
  then have h: "handleSubFiles exampleEnv (Some [?A, ?B])
       = ([''[if_cmd] Range check failed: The id ranges of sub-files a.json and b.json overlap''],
          Inl ''The id ranges of sub-files a.json and b.json overlap'')"
    by simp
  from ab ab' am ca none h show ?thesis by blast
qed

end
